theory Spec2Isabelle
  imports Main "HOL-Library.Sublist"
begin

section \<open>JavaScript strings and values\<close>

text \<open>
  A JavaScript string is a sequence of UTF-16 code units; \<open>s.length\<close> counts them and
  \<open>s.substring(0, n)\<close> keeps the first \<open>n\<close> of them. Here a string is a HOL
  \<^typ>\<open>string\<close>, one \<^typ>\<open>char\<close> per code unit, so that \<^const>\<open>length\<close> is
  \<open>.length\<close> and \<^const>\<open>take\<close> is \<open>substring(0, n)\<close>. The code compares,
  counts, cuts and concatenates the strings it is given and never looks inside a
  character, so nothing below depends on how many characters there are. The empty
  string is the only falsy string.
\<close>

definition digit :: "nat \<Rightarrow> char" where
  "digit d = ''0123456789'' ! d"

fun nat_to_string :: "nat \<Rightarrow> string" where
  "nat_to_string n =
     (if n < 10 then [digit n] else nat_to_string (n div 10) @ [digit (n mod 10)])"

declare nat_to_string.simps [simp del]

text \<open>
  A JavaScript number, held as the text \<open>Number.prototype.toString\<close> gives for it
  (\<open>400\<close>, \<open>-2.5\<close>, \<open>1e+21\<close>, \<open>NaN\<close>, \<open>Infinity\<close>): the code only prints
  numbers, tests them for truth and compares them with integer literals, and two
  numbers other than \<open>NaN\<close> are \<open>===\<close> exactly when they print alike. Both zeros
  print as \<open>0\<close>; zero and \<open>NaN\<close> are the falsy numbers. Every number has such a
  text; a text that no number prints as stands for no value of the program, and what
  is proved for all texts holds for all numbers.
\<close>

datatype js_number = Num string

fun Number_toString :: "js_number \<Rightarrow> string" where
  "Number_toString (Num s) = s"

definition number_truthy :: "js_number \<Rightarrow> bool" where
  "number_truthy n = (Number_toString n \<noteq> ''0'' \<and> Number_toString n \<noteq> ''NaN'')"

text \<open>
  The values a decoded JSON body or a thrown value can take. An object is the
  association list of its own properties, the first entry of a key being the one
  that counts.
\<close>

datatype jsval =
    JUndefined
  | JNull
  | JBool bool
  | JNum js_number
  | JStr string
  | JArr "jsval list"
  | JObj "(string \<times> jsval) list"

text \<open>Truthiness, as \<open>||\<close>, \<open>if\<close> and \<open>!!\<close> test it.\<close>

fun truthy :: "jsval \<Rightarrow> bool" where
  "truthy JUndefined = False"
| "truthy JNull = False"
| "truthy (JBool b) = b"
| "truthy (JNum n) = number_truthy n"
| "truthy (JStr s) = (s \<noteq> [])"
| "truthy (JArr vs) = True"
| "truthy (JObj kvs) = True"

text \<open>\<open>a || b\<close>\<close>

definition js_or :: "jsval \<Rightarrow> jsval \<Rightarrow> jsval" where
  "js_or a b = (if truthy a then a else b)"

text \<open>
  \<open>v?.k\<close> for the keys the code reads (\<open>error\<close>, \<open>message\<close>): \<open>undefined\<close> on
  \<open>null\<close> and \<open>undefined\<close> by the optional chaining, \<open>undefined\<close> on a primitive
  and on an array, which have no such property, and the property or \<open>undefined\<close>
  on an object.
\<close>

fun js_get :: "jsval \<Rightarrow> string \<Rightarrow> jsval" where
  "js_get (JObj kvs) k = (case map_of kvs k of Some v \<Rightarrow> v | None \<Rightarrow> JUndefined)"
| "js_get v k = JUndefined"

text \<open>
  An optional string field of an entity or of the tool input: \<open>None\<close> is
  \<open>undefined\<close>. \<open>str_truthy\<close> is the test \<open>if (field)\<close>, \<open>str_or\<close> is
  \<open>field || fallback\<close>.
\<close>

fun str_truthy :: "string option \<Rightarrow> bool" where
  "str_truthy None = False"
| "str_truthy (Some s) = (s \<noteq> [])"

fun str_or :: "string option \<Rightarrow> string \<Rightarrow> string" where
  "str_or None d = d"
| "str_or (Some s) d = (if s \<noteq> [] then s else d)"

text \<open>\<open>xs.join(sep)\<close>, and \<open>lines.join("\n")\<close>\<close>

fun js_join :: "string \<Rightarrow> string list \<Rightarrow> string" where
  "js_join sep [] = []"
| "js_join sep [l] = l"
| "js_join sep (l # m # ls) = l @ sep @ js_join sep (m # ls)"

definition joinLines :: "string list \<Rightarrow> string" where
  "joinLines ls = js_join [CHR 0x0A] ls"

section \<open>Errors\<close>

text \<open>
  What a \<open>catch\<close> can receive: an \<open>AxiosError\<close> (with the HTTP response when the
  server answered, the transport code otherwise, and its message), any other
  \<open>Error\<close> with its message, a \<open>TypeError\<close> being one of them, or a thrown value
  that is no \<open>Error\<close> (a piece of data). The status of a response is a number,
  its body whatever the server sent, decoded.
\<close>

record http_response =
  status :: js_number
  data :: jsval

datatype js_error =
    AxiosError "http_response option" "string option" string
  | Error string
  | Thrown jsval

text \<open>
  \<open>String(v)\<close>, which is also what a template literal \<open>${v}\<close> inserts. On an object
  it calls the object's \<open>toString\<close>: a decoded body inherits
  \<open>Object.prototype.toString\<close>, which answers \<open>[object Object]\<close>, unless the body
  has a \<open>toString\<close> property of its own. Such a property is data, never a function,
  \<open>valueOf\<close> (own and not callable, or inherited and answering the object itself)
  gives no primitive either, and the conversion throws a \<open>TypeError\<close>. An array is
  joined with commas, \<open>null\<close> and \<open>undefined\<close> elements printing as nothing; the
  first element that cannot be converted throws.
\<close>

definition cannotConvert :: js_error where
  "cannotConvert = Error ''Cannot convert object to primitive value''"

fun first_throw :: "(js_error + 'a) list \<Rightarrow> js_error + 'a list" where
  "first_throw [] = Inr []"
| "first_throw (Inl e # rs) = Inl e"
| "first_throw (Inr x # rs) =
     (case first_throw rs of Inl e \<Rightarrow> Inl e | Inr xs \<Rightarrow> Inr (x # xs))"

fun js_to_string :: "jsval \<Rightarrow> js_error + string" where
  "js_to_string JUndefined = Inr ''undefined''"
| "js_to_string JNull = Inr ''null''"
| "js_to_string (JBool b) = Inr (if b then ''true'' else ''false'')"
| "js_to_string (JNum n) = Inr (Number_toString n)"
| "js_to_string (JStr s) = Inr s"
| "js_to_string (JArr vs) =
     (case first_throw
             (map (\<lambda>v. if v = JUndefined \<or> v = JNull then Inr [] else js_to_string v) vs) of
        Inl e \<Rightarrow> Inl e
      | Inr parts \<Rightarrow> Inr (js_join '','' parts))"
| "js_to_string (JObj kvs) =
     (if map_of kvs ''toString'' = None then Inr ''[object Object]'' else Inl cannotConvert)"

text \<open>The template literal \<open>`pre${v}post`\<close>\<close>

definition js_template :: "string \<Rightarrow> jsval \<Rightarrow> string \<Rightarrow> js_error + string" where
  "js_template pre v post =
     (case js_to_string v of Inl e \<Rightarrow> Inl e | Inr s \<Rightarrow> Inr (pre @ s @ post))"

section \<open>Error classifier (services/api-client.ts)\<close>

text \<open>\<open>data?.error?.message || data?.message || "Unknown error"\<close>\<close>

definition upstreamMessage :: "jsval \<Rightarrow> jsval" where
  "upstreamMessage d =
     js_or (js_get (js_get d ''error'') ''message'')
       (js_or (js_get d ''message'') (JStr ''Unknown error''))"

text \<open>
  The \<open>switch (status)\<close>. The message is converted where a branch inserts it, so
  the branches with a fixed text return whatever the message is.
\<close>

definition statusMessage :: "js_number \<Rightarrow> jsval \<Rightarrow> js_error + string" where
  "statusMessage st message =
     (if st = Num ''400'' then
        js_template ''Error: Bad request - '' message ''. Check your parameters and try again.''
      else if st = Num ''401'' then
        Inr ''Error: Authentication failed. Please check your credentials and ensure they have the required permissions.''
      else if st = Num ''403'' then
        js_template ''Error: Permission denied - '' message
          ''. Ensure the app has the required Chat API scopes.''
      else if st = Num ''404'' then
        js_template ''Error: Resource not found - '' message
          ''. Check that the space/message/member ID is correct.''
      else if st = Num ''409'' then
        js_template ''Error: Conflict - '' message
          ''. The resource may already exist or be in an invalid state.''
      else if st = Num ''429'' then
        Inr ''Error: Rate limit exceeded. Please wait before making more requests.''
      else if st = Num ''500'' then
        Inr ''Error: Google Chat API server error. Please try again later.''
      else if st = Num ''503'' then
        Inr ''Error: Google Chat API is temporarily unavailable. Please try again later.''
      else
        js_template (''Error: API request failed ('' @ Number_toString st @ '') - '') message '''')"

definition unexpectedError :: "string \<Rightarrow> string" where
  "unexpectedError raw = ''Error: Unexpected error - '' @ raw"

fun handleApiError :: "js_error \<Rightarrow> js_error + string" where
  "handleApiError (AxiosError (Some r) code msg) =
     statusMessage (status r) (upstreamMessage (data r))"
| "handleApiError (AxiosError None code msg) =
     Inr (if code = Some ''ECONNABORTED'' then
            ''Error: Request timed out. Please try again.''
          else if code = Some ''ENOTFOUND'' \<or> code = Some ''ECONNREFUSED'' then
            ''Error: Unable to connect to Google Chat API. Check your network connection.''
          else unexpectedError msg)"
| "handleApiError (Error msg) = Inr (unexpectedError msg)"
| "handleApiError (Thrown v) = js_template ''Error: Unexpected error - '' v ''''"

section \<open>Constants (constants.ts)\<close>

definition CHARACTER_LIMIT :: nat where
  "CHARACTER_LIMIT = 25000"

datatype ResponseFormat = MARKDOWN | JSON

section \<open>Entities (types.ts)\<close>

text \<open>
  The fields the renderer reads. An optional field is an \<open>option\<close>; every entity
  carries further fields that are relayed without being looked at.
\<close>

record SpaceDetails =
  details_description :: "string option"
  details_guidelines :: "string option"

record MembershipCount =
  joinedDirectHumanUserCount :: "js_number option"
  joinedGroupCount :: "js_number option"

record Space =
  space_name :: string
  space_type :: "string option"
  space_spaceType :: "string option"
  space_threaded :: "bool option"
  space_displayName :: "string option"
  space_externalUserAllowed :: "bool option"
  space_spaceDetails :: "SpaceDetails option"
  space_createTime :: "string option"
  space_membershipCount :: "MembershipCount option"

record User =
  user_name :: string
  user_displayName :: "string option"
  user_type :: "string option"

record Member =
  member_name :: string
  member_state :: "string option"
  member_role :: "string option"
  member_member :: "User option"
  member_createTime :: "string option"

record Thread =
  thread_name :: string
  thread_threadKey :: "string option"

record CustomEmoji =
  customEmoji_uid :: "string option"

record Emoji =
  emoji_unicode :: "string option"
  emoji_customEmoji :: "CustomEmoji option"

record EmojiReactionSummary =
  summary_emoji :: "Emoji option"
  reactionCount :: "js_number option"

record Message =
  message_name :: string
  message_sender :: "User option"
  message_createTime :: "string option"
  message_text :: "string option"
  message_thread :: "Thread option"
  message_emojiReactionSummaries :: "EmojiReactionSummary list option"

record Reaction =
  reaction_name :: string
  reaction_user :: "User option"
  reaction_emoji :: "Emoji option"

record AttachmentDataRef =
  resourceName :: "string option"
  attachmentUploadToken :: "string option"

record Attachment =
  attachment_name :: string
  attachment_contentName :: "string option"
  attachment_contentType :: "string option"
  attachment_dataRef :: "AttachmentDataRef option"
  attachment_downloadUri :: "string option"
  attachment_source :: "string option"

text \<open>
  The objects that are serialised in JSON mode and returned as structured content: an
  entity, a page \<open>{count, <items>, hasMore, nextPageToken}\<close> (the search page with its
  \<open>totalSize\<close>), or the acknowledgement \<open>{deleted: true, <key>: <name>}\<close>.
\<close>

datatype structured =
    SpaceObj Space
  | MessageObj Message
  | MemberObj Member
  | ReactionObj Reaction
  | AttachmentObj Attachment
  | SpacesPage nat "Space list" bool "string option"
  | SearchPage nat "js_number option" "Space list" bool "string option"
  | MessagesPage nat "Message list" bool "string option"
  | MembersPage nat "Member list" bool "string option"
  | ReactionsPage nat "Reaction list" bool "string option"
  | Deleted string string

section \<open>The platform\<close>

text \<open>
  What the code takes from the JavaScript runtime, its libraries and the process
  environment, as parameters:
  \<^item> the three environment variables;
  \<^item> \<open>JSON.parse\<close> (\<open>None\<close>: it throws) and \<open>JSON.stringify(x, null, 2)\<close>;
  \<^item> \<open>new Date(s)\<close> on a string: the time value, \<open>None\<close> for the Invalid Date that
    an unparseable string yields (the constructor does not throw);
  \<^item> \<open>toLocaleString("en-US", options)\<close> on a valid date, which depends on the time
    zone and the locale data (\<open>Inl\<close>: it throws);
  \<^item> the token exchange of the service-account client (\<open>getClient\<close> followed by
    \<open>getAccessToken\<close>): it throws, or yields a token or none;
  \<^item> the byte length of \<open>Buffer.from(s, "base64")\<close>.
\<close>

datatype auth_client =
    GoogleAuth "string list" "jsval option"
  | OAuth2Client "string option"

record platform =
  GOOGLE_APPLICATION_CREDENTIALS :: "string option"
  GOOGLE_SERVICE_ACCOUNT_JSON :: "string option"
  GOOGLE_OAUTH_TOKEN :: "string option"
  JSON_parse :: "string \<Rightarrow> jsval option"
  JSON_stringify :: "structured \<Rightarrow> string"
  Date_parse :: "string \<Rightarrow> int option"
  Intl_format :: "int \<Rightarrow> js_error + string"
  tokenExchange :: "string list \<Rightarrow> jsval option \<Rightarrow> js_error + string option"
  base64_length :: "string \<Rightarrow> nat"

section \<open>Renderer (services/formatters.ts)\<close>

text \<open>
  \<open>Date.prototype.toLocaleString\<close> returns the string \<open>Invalid Date\<close> for an
  invalid date and formats a valid one.
\<close>

definition Date_toLocaleString :: "platform \<Rightarrow> int option \<Rightarrow> js_error + string" where
  "Date_toLocaleString pf d =
     (case d of None \<Rightarrow> Inr ''Invalid Date'' | Some t \<Rightarrow> Intl_format pf t)"

definition formatTimestamp :: "platform \<Rightarrow> string \<Rightarrow> string" where
  "formatTimestamp pf timestamp =
     (case Date_toLocaleString pf (Date_parse pf timestamp) of
        Inr s \<Rightarrow> s
      | Inl e \<Rightarrow> timestamp)"

definition truncationNotice :: string where
  "truncationNotice =
     ''\<newline>\<newline>---\<newline>*Response truncated due to size limit. Use pagination to see more results.*''"

definition truncateResponse :: "string \<Rightarrow> string" where
  "truncateResponse text =
     (if length text \<le> CHARACTER_LIMIT then text
      else take (CHARACTER_LIMIT - 100) text @ truncationNotice)"

text \<open>\<open>s.substring(0, 100) + (s.length > 100 ? "..." : "")\<close>\<close>

definition preview100 :: "string \<Rightarrow> string" where
  "preview100 s = take 100 s @ (if length s > 100 then ''...'' else [])"

definition yesNo :: "bool \<Rightarrow> string" where
  "yesNo b = (if b then ''Yes'' else ''No'')"

definition space_description :: "Space \<Rightarrow> string option" where
  "space_description space = Option.bind (space_spaceDetails space) details_description"

definition spaceTypeLabel :: "Space \<Rightarrow> string" where
  "spaceTypeLabel space = str_or (space_spaceType space) (str_or (space_type space) ''Unknown'')"

definition formatSpaceLines :: "platform \<Rightarrow> Space \<Rightarrow> string list" where
  "formatSpaceLines pf space =
     [''## '' @ str_or (space_displayName space) ''Unnamed Space'',
      ''- **Name**: '' @ space_name space,
      ''- **Type**: '' @ spaceTypeLabel space]
     @ (if str_truthy (space_description space)
        then [''- **Description**: '' @ the (space_description space)] else [])
     @ (case space_membershipCount space of
          None \<Rightarrow> []
        | Some mc \<Rightarrow>
            [''- **Members**: '' @
               Number_toString
                 (case joinedDirectHumanUserCount mc of
                    None \<Rightarrow> Num ''0''
                  | Some c \<Rightarrow> if number_truthy c then c else Num ''0'')])
     @ (if str_truthy (space_createTime space)
        then [''- **Created**: '' @ formatTimestamp pf (the (space_createTime space))] else [])
     @ (case space_threaded space of
          None \<Rightarrow> [] | Some b \<Rightarrow> [''- **Threaded**: '' @ yesNo b])
     @ (case space_externalUserAllowed space of
          None \<Rightarrow> [] | Some b \<Rightarrow> [''- **External Users Allowed**: '' @ yesNo b])"

definition formatSpace :: "platform \<Rightarrow> Space \<Rightarrow> ResponseFormat \<Rightarrow> string" where
  "formatSpace pf space format =
     (if format = JSON then JSON_stringify pf (SpaceObj space)
      else joinLines (formatSpaceLines pf space))"

text \<open>The footer line of a list, and the footer of the space, message and member lists.\<close>

definition moreResultsLine :: "string \<Rightarrow> string" where
  "moreResultsLine token = ''*More results available. Use pageToken: `'' @ token @ ''`*''"

definition paginationFooter :: "bool \<Rightarrow> string option \<Rightarrow> string list" where
  "paginationFooter hasMore nextPageToken =
     (if hasMore \<and> str_truthy nextPageToken
      then [''---'', moreResultsLine (the nextPageToken)]
      else [])"

text \<open>The lines one pass of the loop of \<open>formatSpacesList\<close> pushes.\<close>

definition spaceListBlock :: "Space \<Rightarrow> string list" where
  "spaceListBlock space =
     [''## '' @ str_or (space_displayName space) ''Unnamed Space'',
      ''- **ID**: `'' @ space_name space @ ''`'',
      ''- **Type**: '' @ spaceTypeLabel space]
     @ (if str_truthy (space_description space)
        then [''- **Description**: '' @ preview100 (the (space_description space))] else [])
     @ ['''']"

definition spacesListLines :: "Space list \<Rightarrow> bool \<Rightarrow> string option \<Rightarrow> string list" where
  "spacesListLines spaces hasMore nextPageToken =
     [''# Spaces ('' @ nat_to_string (length spaces) @ '' results)'', '''']
     @ concat (map spaceListBlock spaces)
     @ paginationFooter hasMore nextPageToken"

definition formatSpacesList ::
  "platform \<Rightarrow> Space list \<Rightarrow> ResponseFormat \<Rightarrow> bool \<Rightarrow> string option \<Rightarrow> string" where
  "formatSpacesList pf spaces format hasMore nextPageToken =
     (if format = JSON
      then JSON_stringify pf (SpacesPage (length spaces) spaces hasMore nextPageToken)
      else if spaces = [] then ''No spaces found.''
      else truncateResponse (joinLines (spacesListLines spaces hasMore nextPageToken)))"

definition formatMessageLines :: "platform \<Rightarrow> Message \<Rightarrow> string list" where
  "formatMessageLines pf message =
     [''## Message'',
      ''- **ID**: `'' @ message_name message @ ''`'']
     @ (case message_sender message of
          None \<Rightarrow> []
        | Some u \<Rightarrow> [''- **From**: '' @ str_or (user_displayName u) (user_name u)])
     @ (if str_truthy (message_createTime message)
        then [''- **Time**: '' @ formatTimestamp pf (the (message_createTime message))] else [])
     @ (if str_truthy (message_text message)
        then ['''', ''### Content'', the (message_text message)] else [])
     @ (if str_truthy (map_option thread_name (message_thread message))
        then ['''', ''- **Thread**: `'' @ thread_name (the (message_thread message)) @ ''`''] else [])
     @ (case message_emojiReactionSummaries message of
          None \<Rightarrow> []
        | Some [] \<Rightarrow> []
        | Some (r # rs) \<Rightarrow>
            [''- **Reactions**: '' @
               js_join '' ''
                 (map (\<lambda>r. str_or (Option.bind (summary_emoji r) emoji_unicode) ''?'' @ '' ('' @
                            (case reactionCount r of
                               None \<Rightarrow> ''undefined'' | Some n \<Rightarrow> Number_toString n) @ '')'')
                      (r # rs))])"

definition formatMessage :: "platform \<Rightarrow> Message \<Rightarrow> ResponseFormat \<Rightarrow> string" where
  "formatMessage pf message format =
     (if format = JSON then JSON_stringify pf (MessageObj message)
      else joinLines (formatMessageLines pf message))"

definition messageListBlock :: "platform \<Rightarrow> Message \<Rightarrow> string list" where
  "messageListBlock pf message =
     (let sender = str_or (Option.bind (message_sender message) user_displayName)
                     (str_or (map_option user_name (message_sender message)) ''Unknown'');
          time = (if str_truthy (message_createTime message)
                  then formatTimestamp pf (the (message_createTime message)) else '''');
          preview = (if str_truthy (message_text message)
                     then preview100 (the (message_text message)) else ''[No text content]'')
      in [''### '' @ sender @ '' - '' @ time,
          ''- **ID**: `'' @ message_name message @ ''`'',
          ''- **Content**: '' @ preview,
          ''''])"

definition messagesListLines ::
  "platform \<Rightarrow> Message list \<Rightarrow> bool \<Rightarrow> string option \<Rightarrow> string list" where
  "messagesListLines pf messages hasMore nextPageToken =
     [''# Messages ('' @ nat_to_string (length messages) @ '' results)'', '''']
     @ concat (map (messageListBlock pf) messages)
     @ paginationFooter hasMore nextPageToken"

definition formatMessagesList ::
  "platform \<Rightarrow> Message list \<Rightarrow> ResponseFormat \<Rightarrow> bool \<Rightarrow> string option \<Rightarrow> string" where
  "formatMessagesList pf messages format hasMore nextPageToken =
     (if format = JSON
      then JSON_stringify pf (MessagesPage (length messages) messages hasMore nextPageToken)
      else if messages = [] then ''No messages found.''
      else truncateResponse (joinLines (messagesListLines pf messages hasMore nextPageToken)))"

text \<open>\<open>member.member?.displayName || member.member?.name || "Unknown"\<close>\<close>

definition memberDisplayName :: "Member \<Rightarrow> string" where
  "memberDisplayName member =
     str_or (Option.bind (member_member member) user_displayName)
       (str_or (map_option user_name (member_member member)) ''Unknown'')"

definition formatMemberLines :: "platform \<Rightarrow> Member \<Rightarrow> string list" where
  "formatMemberLines pf member =
     [''## '' @ memberDisplayName member,
      ''- **Membership ID**: `'' @ member_name member @ ''`'',
      ''- **State**: '' @ str_or (member_state member) ''Unknown'',
      ''- **Role**: '' @ str_or (member_role member) ''Unknown'']
     @ (if str_truthy (Option.bind (member_member member) user_type)
        then [''- **Type**: '' @ the (user_type (the (member_member member)))] else [])
     @ (if str_truthy (member_createTime member)
        then [''- **Joined**: '' @ formatTimestamp pf (the (member_createTime member))] else [])"

definition formatMember :: "platform \<Rightarrow> Member \<Rightarrow> ResponseFormat \<Rightarrow> string" where
  "formatMember pf member format =
     (if format = JSON then JSON_stringify pf (MemberObj member)
      else joinLines (formatMemberLines pf member))"

definition memberListBlock :: "Member \<Rightarrow> string list" where
  "memberListBlock member =
     [''## '' @ memberDisplayName member,
      ''- **ID**: `'' @ member_name member @ ''`'',
      ''- **Role**: '' @ str_or (member_role member) ''Unknown'',
      ''- **State**: '' @ str_or (member_state member) ''Unknown'',
      '''']"

definition membersListLines :: "Member list \<Rightarrow> bool \<Rightarrow> string option \<Rightarrow> string list" where
  "membersListLines members hasMore nextPageToken =
     [''# Members ('' @ nat_to_string (length members) @ '' results)'', '''']
     @ concat (map memberListBlock members)
     @ paginationFooter hasMore nextPageToken"

definition formatMembersList ::
  "platform \<Rightarrow> Member list \<Rightarrow> ResponseFormat \<Rightarrow> bool \<Rightarrow> string option \<Rightarrow> string" where
  "formatMembersList pf members format hasMore nextPageToken =
     (if format = JSON
      then JSON_stringify pf (MembersPage (length members) members hasMore nextPageToken)
      else if members = [] then ''No members found.''
      else truncateResponse (joinLines (membersListLines members hasMore nextPageToken)))"

text \<open>
  \<open>reaction.emoji?.unicode || reaction.emoji?.customEmoji?.uid || "?"\<close> and
  \<open>reaction.user?.displayName || reaction.user?.name || "Unknown"\<close>
\<close>

definition reactionEmoji :: "Reaction \<Rightarrow> string" where
  "reactionEmoji reaction =
     str_or (Option.bind (reaction_emoji reaction) emoji_unicode)
       (str_or (Option.bind (Option.bind (reaction_emoji reaction) emoji_customEmoji) customEmoji_uid) ''?'')"

definition reactionUser :: "Reaction \<Rightarrow> string" where
  "reactionUser reaction =
     str_or (Option.bind (reaction_user reaction) user_displayName)
       (str_or (map_option user_name (reaction_user reaction)) ''Unknown'')"

definition formatReaction :: "platform \<Rightarrow> Reaction \<Rightarrow> ResponseFormat \<Rightarrow> string" where
  "formatReaction pf reaction format =
     (if format = JSON then JSON_stringify pf (ReactionObj reaction)
      else reactionEmoji reaction @ '' by '' @ reactionUser reaction @
           '' (`'' @ reaction_name reaction @ ''`)'')"

text \<open>
  The \<open>Map\<close> of \<open>formatReactionsList\<close>, from the emoji to \<open>{emoji, users}\<close>: an
  association list in insertion order, which is the order a \<open>Map\<close> iterates in.
  \<open>set\<close> on a key that is there keeps its place.
\<close>

record reaction_group =
  group_emoji :: string
  users :: "string list"

type_synonym reaction_groups = "(string \<times> reaction_group) list"

definition Map_has :: "('k \<times> 'v) list \<Rightarrow> 'k \<Rightarrow> bool" where
  "Map_has m k = (map_of m k \<noteq> None)"

definition Map_get :: "('k \<times> 'v) list \<Rightarrow> 'k \<Rightarrow> 'v option" where
  "Map_get m k = map_of m k"

fun Map_set :: "('k \<times> 'v) list \<Rightarrow> 'k \<Rightarrow> 'v \<Rightarrow> ('k \<times> 'v) list" where
  "Map_set [] k v = [(k, v)]"
| "Map_set ((k', v') # m) k v =
     (if k' = k then (k, v) # m else (k', v') # Map_set m k v)"

text \<open>
  One pass of the grouping loop. \<open>grouped.get(emoji)!.users.push(user)\<close> changes the
  object the map holds, so the entry is rewritten in place; on a missing entry the
  property access would throw a \<open>TypeError\<close>.
\<close>

definition groupStep :: "reaction_groups \<Rightarrow> Reaction \<Rightarrow> js_error + reaction_groups" where
  "groupStep grouped reaction =
     (let emoji = reactionEmoji reaction;
          user = reactionUser reaction;
          grouped1 = (if \<not> Map_has grouped emoji
                      then Map_set grouped emoji \<lparr>group_emoji = emoji, users = []\<rparr>
                      else grouped)
      in case Map_get grouped1 emoji of
           None \<Rightarrow> Inl (Error ''Cannot read properties of undefined (reading 'users')'')
         | Some g \<Rightarrow> Inr (Map_set grouped1 emoji (g\<lparr>users := users g @ [user]\<rparr>)))"

fun groupReactions :: "reaction_groups \<Rightarrow> Reaction list \<Rightarrow> js_error + reaction_groups" where
  "groupReactions grouped [] = Inr grouped"
| "groupReactions grouped (reaction # reactions) =
     (case groupStep grouped reaction of
        Inl e \<Rightarrow> Inl e
      | Inr grouped' \<Rightarrow> groupReactions grouped' reactions)"

definition groupLine :: "string \<times> reaction_group \<Rightarrow> string" where
  "groupLine entry =
     (case entry of (emoji, g) \<Rightarrow>
        ''- '' @ emoji @ '' ('' @ nat_to_string (length (users g)) @ ''): '' @
        js_join '', '' (users g))"

definition reactionsFooter :: "bool \<Rightarrow> string option \<Rightarrow> string list" where
  "reactionsFooter hasMore nextPageToken =
     (if hasMore \<and> str_truthy nextPageToken
      then ['''', moreResultsLine (the nextPageToken)]
      else [])"

definition formatReactionsList ::
  "platform \<Rightarrow> Reaction list \<Rightarrow> ResponseFormat \<Rightarrow> bool \<Rightarrow> string option
     \<Rightarrow> js_error + string" where
  "formatReactionsList pf reactions format hasMore nextPageToken =
     (if format = JSON
      then Inr (JSON_stringify pf
                  (ReactionsPage (length reactions) reactions hasMore nextPageToken))
      else if reactions = [] then Inr ''No reactions found.''
      else case groupReactions [] reactions of
             Inl e \<Rightarrow> Inl e
           | Inr grouped \<Rightarrow>
               Inr (joinLines
                      ([''# Reactions ('' @ nat_to_string (length reactions) @ '' results)'', '''']
                       @ map groupLine grouped
                       @ reactionsFooter hasMore nextPageToken)))"

definition formatAttachmentLines :: "Attachment \<Rightarrow> string list" where
  "formatAttachmentLines attachment =
     [''## Attachment'',
      ''- **Name**: `'' @ attachment_name attachment @ ''`'']
     @ (if str_truthy (attachment_contentName attachment)
        then [''- **Filename**: '' @ the (attachment_contentName attachment)] else [])
     @ (if str_truthy (attachment_contentType attachment)
        then [''- **Type**: '' @ the (attachment_contentType attachment)] else [])
     @ (if str_truthy (attachment_downloadUri attachment)
        then [''- **Download URL**: '' @ the (attachment_downloadUri attachment)] else [])
     @ (if str_truthy (attachment_source attachment)
        then [''- **Source**: '' @ the (attachment_source attachment)] else [])"

definition formatAttachment :: "platform \<Rightarrow> Attachment \<Rightarrow> ResponseFormat \<Rightarrow> string" where
  "formatAttachment pf attachment format =
     (if format = JSON then JSON_stringify pf (AttachmentObj attachment)
      else joinLines (formatAttachmentLines attachment))"

section \<open>Client state and dispatcher (services/api-client.ts)\<close>

definition CHAT_SCOPES :: "string list" where
  "CHAT_SCOPES =
     [''https://www.googleapis.com/auth/chat.spaces'',
      ''https://www.googleapis.com/auth/chat.spaces.readonly'',
      ''https://www.googleapis.com/auth/chat.messages'',
      ''https://www.googleapis.com/auth/chat.messages.readonly'',
      ''https://www.googleapis.com/auth/chat.memberships'',
      ''https://www.googleapis.com/auth/chat.memberships.readonly'',
      ''https://www.googleapis.com/auth/chat.spaces.create'',
      ''https://www.googleapis.com/auth/chat.delete'',
      ''https://www.googleapis.com/auth/chat.import'']"

datatype http_method = GET | POST | PUT | PATCH | DELETE

record api_request =
  endpoint :: string
  verb :: http_method
  body :: "jsval option"
  params :: "(string \<times> jsval) list option"

text \<open>
  The module state: whether the HTTP client exists (\<open>apiClient !== null\<close>), the
  authentication client, and, to speak about what leaves the process, the requests sent
  so far, each with the bearer token the interceptor attached.
\<close>

record world =
  apiClient :: bool
  authClient :: "auth_client option"
  sent :: "(string \<times> api_request) list"

text \<open>The state the module starts in: \<open>apiClient\<close> and \<open>authClient\<close> are \<open>null\<close>.\<close>

definition initial_world :: world where
  "initial_world = \<lparr>apiClient = False, authClient = None, sent = []\<rparr>"

definition invalidJsonMessage :: string where
  "invalidJsonMessage = ''Invalid GOOGLE_SERVICE_ACCOUNT_JSON: must be valid JSON''"

definition authRequiredMessage :: string where
  "authRequiredMessage =
     ''Authentication required. Set one of:\<newline>'' @
     ''  - GOOGLE_APPLICATION_CREDENTIALS: Path to service account JSON file\<newline>'' @
     ''  - GOOGLE_SERVICE_ACCOUNT_JSON: Service account JSON as a string\<newline>'' @
     ''  - GOOGLE_OAUTH_TOKEN: OAuth2 access token''"

definition initializeApiClient :: "platform \<Rightarrow> world \<Rightarrow> js_error + world" where
  "initializeApiClient pf w =
     (let serviceAccountPath = GOOGLE_APPLICATION_CREDENTIALS pf;
          serviceAccountJson = GOOGLE_SERVICE_ACCOUNT_JSON pf;
          oauthToken = GOOGLE_OAUTH_TOKEN pf
      in if str_truthy serviceAccountPath \<or> str_truthy serviceAccountJson then
           (if str_truthy serviceAccountJson then
              (case JSON_parse pf (the serviceAccountJson) of
                 None \<Rightarrow> Inl (Error invalidJsonMessage)
               | Some credentials \<Rightarrow>
                   Inr (w\<lparr>authClient := Some (GoogleAuth CHAT_SCOPES (Some credentials)),
                           apiClient := True\<rparr>))
            else Inr (w\<lparr>authClient := Some (GoogleAuth CHAT_SCOPES None), apiClient := True\<rparr>))
         else if str_truthy oauthToken then
           Inr (w\<lparr>authClient := Some (OAuth2Client oauthToken), apiClient := True\<rparr>)
         else Inl (Error authRequiredMessage))"

definition getAccessToken :: "platform \<Rightarrow> world \<Rightarrow> js_error + string" where
  "getAccessToken pf w =
     (case authClient w of
        None \<Rightarrow> Inl (Error ''API client not initialized. Call initializeApiClient() first.'')
      | Some (OAuth2Client access_token) \<Rightarrow>
          (if str_truthy access_token then Inr (the access_token)
           else Inl (Error ''OAuth2 token expired or invalid''))
      | Some (GoogleAuth scopes credentials) \<Rightarrow>
          (case tokenExchange pf scopes credentials of
             Inl e \<Rightarrow> Inl e
           | Inr token \<Rightarrow>
               (if \<not> str_truthy token then Inl (Error ''Failed to obtain access token'')
                else Inr (the token))))"

text \<open>
  \<open>remote\<close> is the service: what the HTTP exchange of a request yields, the decoded
  body or the error the HTTP client throws. A request whose interceptor fails to get a
  token is not sent.
\<close>

definition makeApiRequest ::
  "platform \<Rightarrow> (api_request \<Rightarrow> js_error + 'r) \<Rightarrow> world \<Rightarrow> api_request
     \<Rightarrow> (js_error + 'r) \<times> world" where
  "makeApiRequest pf remote w req =
     (case (if \<not> apiClient w then initializeApiClient pf w else Inr w) of
        Inl e \<Rightarrow> (Inl e, w)
      | Inr w1 \<Rightarrow>
          (case getAccessToken pf w1 of
             Inl e \<Rightarrow> (Inl e, w1)
           | Inr token \<Rightarrow> (remote req, w1\<lparr>sent := sent w1 @ [(token, req)]\<rparr>)))"

section \<open>Tool handlers (tools/*.ts)\<close>

text \<open>
  What a handler returns: \<open>isError\<close> (absent on success), the text items of
  \<open>content\<close>, and \<open>structuredContent\<close> when the handler sets it.
\<close>

record tool_result =
  isError :: bool
  content :: "string list"
  structuredContent :: "structured option"

text \<open>
  The result every \<open>catch\<close> block builds, and the result of a success. The
  \<open>catch\<close> block calls \<open>handleApiError\<close> while it builds the result, outside any
  \<open>try\<close>: what that call throws, the handler throws (\<open>Inl\<close>).
\<close>

definition errorResult :: "js_error \<Rightarrow> js_error + tool_result" where
  "errorResult error =
     (case handleApiError error of
        Inl thrown \<Rightarrow> Inl thrown
      | Inr text \<Rightarrow> Inr \<lparr>isError = True, content = [text], structuredContent = None\<rparr>)"

definition okResult :: "string \<Rightarrow> structured \<Rightarrow> tool_result" where
  "okResult text s = \<lparr>isError = False, content = [text], structuredContent = Some s\<rparr>"

text \<open>
  Every handler is \<open>try { response = await makeApiRequest(...); return <success> }
  catch (error) { return <failure> }\<close>: the outcome of the request, then the rest of
  the \<open>try\<close> block, which may throw as well.
\<close>

definition tool_try ::
  "(js_error + 'r) \<times> world \<Rightarrow> ('r \<Rightarrow> js_error + tool_result)
     \<Rightarrow> (js_error + tool_result) \<times> world" where
  "tool_try outcome onSuccess =
     (case outcome of
        (Inl error, w') \<Rightarrow> (errorResult error, w')
      | (Inr response, w') \<Rightarrow>
          (case onSuccess response of
             Inl error \<Rightarrow> (errorResult error, w')
           | Inr result \<Rightarrow> (Inr result, w')))"

text \<open>
  The decoded list responses: the items (\<open>spaces\<close>, \<open>messages\<close>, \<open>memberships\<close>,
  \<open>reactions\<close>) and the continuation token; the search response adds \<open>totalSize\<close>.
\<close>

record 'a ListResponse =
  response_items :: "'a list option"
  response_nextPageToken :: "string option"

record 'a SearchResponse = "'a ListResponse" +
  response_totalSize :: "js_number option"

datatype SpaceType = SPACE | GROUP_CHAT | DIRECT_MESSAGE

fun SpaceType_string :: "SpaceType \<Rightarrow> string" where
  "SpaceType_string SPACE = ''SPACE''"
| "SpaceType_string GROUP_CHAT = ''GROUP_CHAT''"
| "SpaceType_string DIRECT_MESSAGE = ''DIRECT_MESSAGE''"

datatype MembershipRole = ROLE_UNSPECIFIED | ROLE_MEMBER | ROLE_MANAGER

fun MembershipRole_string :: "MembershipRole \<Rightarrow> string" where
  "MembershipRole_string ROLE_UNSPECIFIED = ''ROLE_UNSPECIFIED''"
| "MembershipRole_string ROLE_MEMBER = ''ROLE_MEMBER''"
| "MembershipRole_string ROLE_MANAGER = ''ROLE_MANAGER''"

text \<open>\<open>if (value) obj[key] = value\<close> for an optional string and for a boolean.\<close>

definition str_param :: "string \<Rightarrow> string option \<Rightarrow> (string \<times> jsval) list" where
  "str_param key v = (if str_truthy v then [(key, JStr (the v))] else [])"

definition bool_param :: "string \<Rightarrow> bool \<Rightarrow> (string \<times> jsval) list" where
  "bool_param key v = (if v then [(key, JBool v)] else [])"

text \<open>An optional string as a property value: \<open>undefined\<close> when absent.\<close>

definition str_value :: "string option \<Rightarrow> jsval" where
  "str_value v = (case v of None \<Rightarrow> JUndefined | Some s \<Rightarrow> JStr s)"

text \<open>\<open>Object.keys(queryParams).length > 0 ? queryParams : undefined\<close>\<close>

definition nonempty_params :: "(string \<times> jsval) list \<Rightarrow> (string \<times> jsval) list option" where
  "nonempty_params queryParams = (if queryParams \<noteq> [] then Some queryParams else None)"

subsection \<open>tools/spaces.ts\<close>

definition list_spaces_request :: "js_number \<Rightarrow> string option \<Rightarrow> string option \<Rightarrow> api_request" where
  "list_spaces_request pageSize pageToken filter' =
     \<lparr>endpoint = ''spaces'', verb = GET, body = None,
      params = Some ([(''pageSize'', JNum pageSize)]
                     @ str_param ''pageToken'' pageToken @ str_param ''filter'' filter')\<rparr>"

definition google_chat_list_spaces ::
  "platform \<Rightarrow> (api_request \<Rightarrow> js_error + Space ListResponse) \<Rightarrow> world
     \<Rightarrow> js_number \<Rightarrow> string option \<Rightarrow> string option \<Rightarrow> ResponseFormat \<Rightarrow> (js_error + tool_result) \<times> world" where
  "google_chat_list_spaces pf remote w pageSize pageToken filter' response_format =
     tool_try (makeApiRequest pf remote w (list_spaces_request pageSize pageToken filter'))
       (\<lambda>response.
          let spaces = (case response_items response of None \<Rightarrow> [] | Some l \<Rightarrow> l);
              hasMore = str_truthy (response_nextPageToken response);
              text = formatSpacesList pf spaces response_format hasMore (response_nextPageToken response)
          in Inr (okResult text
                    (SpacesPage (length spaces) spaces hasMore (response_nextPageToken response))))"

definition get_space_request :: "string \<Rightarrow> api_request" where
  "get_space_request spaceName =
     \<lparr>endpoint = spaceName, verb = GET, body = None, params = None\<rparr>"

definition google_chat_get_space ::
  "platform \<Rightarrow> (api_request \<Rightarrow> js_error + Space) \<Rightarrow> world
     \<Rightarrow> string \<Rightarrow> ResponseFormat \<Rightarrow> (js_error + tool_result) \<times> world" where
  "google_chat_get_space pf remote w spaceName response_format =
     tool_try (makeApiRequest pf remote w (get_space_request spaceName))
       (\<lambda>space. Inr (okResult (formatSpace pf space response_format) (SpaceObj space)))"

definition create_space_request ::
  "string \<Rightarrow> SpaceType \<Rightarrow> bool \<Rightarrow> string option \<Rightarrow> string option \<Rightarrow> api_request" where
  "create_space_request displayName spaceType externalUserAllowed description guidelines =
     \<lparr>endpoint = ''spaces'', verb = POST,
      body = Some (JObj
        ([(''displayName'', JStr displayName),
          (''spaceType'', JStr (SpaceType_string spaceType)),
          (''externalUserAllowed'', JBool externalUserAllowed)]
         @ (if str_truthy description \<or> str_truthy guidelines
            then [(''spaceDetails'',
                   JObj [(''description'', str_value description),
                         (''guidelines'', str_value guidelines)])]
            else []))),
      params = None\<rparr>"

definition google_chat_create_space ::
  "platform \<Rightarrow> (api_request \<Rightarrow> js_error + Space) \<Rightarrow> world
     \<Rightarrow> string \<Rightarrow> SpaceType \<Rightarrow> bool \<Rightarrow> string option \<Rightarrow> string option \<Rightarrow> ResponseFormat
     \<Rightarrow> (js_error + tool_result) \<times> world" where
  "google_chat_create_space pf remote w displayName spaceType externalUserAllowed
       description guidelines response_format =
     tool_try
       (makeApiRequest pf remote w
          (create_space_request displayName spaceType externalUserAllowed description guidelines))
       (\<lambda>space.
          Inr (okResult
                 (''Space created successfully!\<newline>\<newline>'' @ formatSpace pf space response_format)
                 (SpaceObj space)))"

text \<open>The field mask and the body the update handler computes.\<close>

definition update_space_mask ::
  "string option \<Rightarrow> string option \<Rightarrow> string option \<Rightarrow> string list" where
  "update_space_mask displayName description guidelines =
     (if str_truthy displayName then [''displayName''] else [])
     @ (if description \<noteq> None \<or> guidelines \<noteq> None
        then (if description \<noteq> None then [''spaceDetails.description''] else [])
             @ (if guidelines \<noteq> None then [''spaceDetails.guidelines''] else [])
        else [])"

definition update_space_data ::
  "string option \<Rightarrow> string option \<Rightarrow> string option \<Rightarrow> jsval" where
  "update_space_data displayName description guidelines =
     JObj
       ((if str_truthy displayName then [(''displayName'', JStr (the displayName))] else [])
        @ (if description \<noteq> None \<or> guidelines \<noteq> None
           then [(''spaceDetails'',
                  JObj ((if description \<noteq> None
                         then [(''description'', JStr (the description))] else [])
                        @ (if guidelines \<noteq> None
                           then [(''guidelines'', JStr (the guidelines))] else [])))]
           else []))"

definition update_space_request ::
  "string \<Rightarrow> string option \<Rightarrow> string option \<Rightarrow> string option \<Rightarrow> api_request" where
  "update_space_request spaceName displayName description guidelines =
     \<lparr>endpoint = spaceName, verb = PATCH,
      body = Some (update_space_data displayName description guidelines),
      params = Some [(''updateMask'',
                      JStr (js_join '','' (update_space_mask displayName description guidelines)))]\<rparr>"

definition google_chat_update_space ::
  "platform \<Rightarrow> (api_request \<Rightarrow> js_error + Space) \<Rightarrow> world
     \<Rightarrow> string \<Rightarrow> string option \<Rightarrow> string option \<Rightarrow> string option \<Rightarrow> ResponseFormat
     \<Rightarrow> (js_error + tool_result) \<times> world" where
  "google_chat_update_space pf remote w spaceName displayName description guidelines
       response_format =
     (if length (update_space_mask displayName description guidelines) = 0 then
        (Inr \<lparr>isError = True,
               content = [''Error: At least one field must be provided to update.''],
               structuredContent = None\<rparr>, w)
      else
        tool_try
          (makeApiRequest pf remote w
             (update_space_request spaceName displayName description guidelines))
          (\<lambda>space.
             Inr (okResult
                    (''Space updated successfully!\<newline>\<newline>'' @ formatSpace pf space response_format)
                    (SpaceObj space))))"

definition delete_space_request :: "string \<Rightarrow> api_request" where
  "delete_space_request spaceName =
     \<lparr>endpoint = spaceName, verb = DELETE, body = None, params = None\<rparr>"

definition google_chat_delete_space ::
  "platform \<Rightarrow> (api_request \<Rightarrow> js_error + unit) \<Rightarrow> world \<Rightarrow> string \<Rightarrow> (js_error + tool_result) \<times> world" where
  "google_chat_delete_space pf remote w spaceName =
     tool_try (makeApiRequest pf remote w (delete_space_request spaceName))
       (\<lambda>response.
          Inr (okResult (''Space `'' @ spaceName @ ''` has been deleted.'')
                 (Deleted ''spaceName'' spaceName)))"

definition search_spaces_request :: "string \<Rightarrow> js_number \<Rightarrow> string option \<Rightarrow> api_request" where
  "search_spaces_request query pageSize pageToken =
     \<lparr>endpoint = ''spaces:search'', verb = GET, body = None,
      params = Some ([(''query'', JStr query), (''pageSize'', JNum pageSize)]
                     @ str_param ''pageToken'' pageToken)\<rparr>"

definition google_chat_search_spaces ::
  "platform \<Rightarrow> (api_request \<Rightarrow> js_error + Space SearchResponse) \<Rightarrow> world
     \<Rightarrow> string \<Rightarrow> js_number \<Rightarrow> string option \<Rightarrow> ResponseFormat \<Rightarrow> (js_error + tool_result) \<times> world" where
  "google_chat_search_spaces pf remote w query pageSize pageToken response_format =
     tool_try (makeApiRequest pf remote w (search_spaces_request query pageSize pageToken))
       (\<lambda>response.
          let spaces = (case response_items response of None \<Rightarrow> [] | Some l \<Rightarrow> l);
              hasMore = str_truthy (response_nextPageToken response);
              text = formatSpacesList pf spaces response_format hasMore (response_nextPageToken response)
          in Inr (okResult text
                    (SearchPage (length spaces) (response_totalSize response) spaces hasMore
                       (response_nextPageToken response))))"

definition find_direct_message_request :: "string \<Rightarrow> api_request" where
  "find_direct_message_request userId =
     \<lparr>endpoint = ''spaces:findDirectMessage'', verb = GET, body = None,
      params = Some [(''name'', JStr userId)]\<rparr>"

definition google_chat_find_direct_message ::
  "platform \<Rightarrow> (api_request \<Rightarrow> js_error + Space) \<Rightarrow> world
     \<Rightarrow> string \<Rightarrow> ResponseFormat \<Rightarrow> (js_error + tool_result) \<times> world" where
  "google_chat_find_direct_message pf remote w userId response_format =
     tool_try (makeApiRequest pf remote w (find_direct_message_request userId))
       (\<lambda>space. Inr (okResult (formatSpace pf space response_format) (SpaceObj space)))"

subsection \<open>tools/messages.ts\<close>

definition list_messages_request ::
  "string \<Rightarrow> js_number \<Rightarrow> string option \<Rightarrow> string option \<Rightarrow> string option \<Rightarrow> bool \<Rightarrow> api_request" where
  "list_messages_request spaceName pageSize pageToken filter' orderBy showDeleted =
     \<lparr>endpoint = spaceName @ ''/messages'', verb = GET, body = None,
      params = Some ([(''pageSize'', JNum pageSize)]
                     @ str_param ''pageToken'' pageToken @ str_param ''filter'' filter'
                     @ str_param ''orderBy'' orderBy @ bool_param ''showDeleted'' showDeleted)\<rparr>"

definition google_chat_list_messages ::
  "platform \<Rightarrow> (api_request \<Rightarrow> js_error + Message ListResponse) \<Rightarrow> world
     \<Rightarrow> string \<Rightarrow> js_number \<Rightarrow> string option \<Rightarrow> string option \<Rightarrow> string option \<Rightarrow> bool
     \<Rightarrow> ResponseFormat \<Rightarrow> (js_error + tool_result) \<times> world" where
  "google_chat_list_messages pf remote w spaceName pageSize pageToken filter' orderBy
       showDeleted response_format =
     tool_try
       (makeApiRequest pf remote w
          (list_messages_request spaceName pageSize pageToken filter' orderBy showDeleted))
       (\<lambda>response.
          let messages = (case response_items response of None \<Rightarrow> [] | Some l \<Rightarrow> l);
              hasMore = str_truthy (response_nextPageToken response);
              text = formatMessagesList pf messages response_format hasMore
                       (response_nextPageToken response)
          in Inr (okResult text
                    (MessagesPage (length messages) messages hasMore
                       (response_nextPageToken response))))"

definition get_message_request :: "string \<Rightarrow> api_request" where
  "get_message_request messageName =
     \<lparr>endpoint = messageName, verb = GET, body = None, params = None\<rparr>"

definition google_chat_get_message ::
  "platform \<Rightarrow> (api_request \<Rightarrow> js_error + Message) \<Rightarrow> world
     \<Rightarrow> string \<Rightarrow> ResponseFormat \<Rightarrow> (js_error + tool_result) \<times> world" where
  "google_chat_get_message pf remote w messageName response_format =
     tool_try (makeApiRequest pf remote w (get_message_request messageName))
       (\<lambda>message.
          Inr (okResult (formatMessage pf message response_format) (MessageObj message)))"

definition create_message_request ::
  "string \<Rightarrow> string \<Rightarrow> string option \<Rightarrow> string option \<Rightarrow> string option \<Rightarrow> string option
     \<Rightarrow> api_request" where
  "create_message_request spaceName text threadKey threadName messageReplyOption messageId =
     \<lparr>endpoint = spaceName @ ''/messages'', verb = POST,
      body = Some (JObj
        ([(''text'', JStr text)]
         @ (if str_truthy threadKey \<or> str_truthy threadName
            then [(''thread'',
                   JObj (str_param ''threadKey'' threadKey @ str_param ''name'' threadName))]
            else []))),
      params = nonempty_params
                 (str_param ''messageReplyOption'' messageReplyOption
                  @ str_param ''messageId'' messageId)\<rparr>"

definition google_chat_create_message ::
  "platform \<Rightarrow> (api_request \<Rightarrow> js_error + Message) \<Rightarrow> world
     \<Rightarrow> string \<Rightarrow> string \<Rightarrow> string option \<Rightarrow> string option \<Rightarrow> string option \<Rightarrow> string option
     \<Rightarrow> ResponseFormat \<Rightarrow> (js_error + tool_result) \<times> world" where
  "google_chat_create_message pf remote w spaceName text threadKey threadName
       messageReplyOption messageId response_format =
     tool_try
       (makeApiRequest pf remote w
          (create_message_request spaceName text threadKey threadName messageReplyOption
             messageId))
       (\<lambda>message.
          Inr (okResult
                 (''Message sent successfully!\<newline>\<newline>'' @ formatMessage pf message response_format)
                 (MessageObj message)))"

definition update_message_request :: "string \<Rightarrow> string \<Rightarrow> api_request" where
  "update_message_request messageName text =
     \<lparr>endpoint = messageName, verb = PATCH,
      body = Some (JObj [(''text'', JStr text)]),
      params = Some [(''updateMask'', JStr ''text'')]\<rparr>"

definition google_chat_update_message ::
  "platform \<Rightarrow> (api_request \<Rightarrow> js_error + Message) \<Rightarrow> world
     \<Rightarrow> string \<Rightarrow> string \<Rightarrow> ResponseFormat \<Rightarrow> (js_error + tool_result) \<times> world" where
  "google_chat_update_message pf remote w messageName text response_format =
     tool_try (makeApiRequest pf remote w (update_message_request messageName text))
       (\<lambda>message.
          Inr (okResult
                 (''Message updated successfully!\<newline>\<newline>'' @ formatMessage pf message response_format)
                 (MessageObj message)))"

definition delete_message_request :: "string \<Rightarrow> bool \<Rightarrow> api_request" where
  "delete_message_request messageName force =
     \<lparr>endpoint = messageName, verb = DELETE, body = None,
      params = nonempty_params (bool_param ''force'' force)\<rparr>"

definition google_chat_delete_message ::
  "platform \<Rightarrow> (api_request \<Rightarrow> js_error + unit) \<Rightarrow> world
     \<Rightarrow> string \<Rightarrow> bool \<Rightarrow> (js_error + tool_result) \<times> world" where
  "google_chat_delete_message pf remote w messageName force =
     tool_try (makeApiRequest pf remote w (delete_message_request messageName force))
       (\<lambda>response.
          Inr (okResult (''Message `'' @ messageName @ ''` has been deleted.'')
                 (Deleted ''messageName'' messageName)))"

subsection \<open>tools/members.ts\<close>

definition list_members_request ::
  "string \<Rightarrow> js_number \<Rightarrow> string option \<Rightarrow> string option \<Rightarrow> bool \<Rightarrow> bool \<Rightarrow> api_request" where
  "list_members_request spaceName pageSize pageToken filter' showGroups showInvited =
     \<lparr>endpoint = spaceName @ ''/members'', verb = GET, body = None,
      params = Some ([(''pageSize'', JNum pageSize)]
                     @ str_param ''pageToken'' pageToken @ str_param ''filter'' filter'
                     @ bool_param ''showGroups'' showGroups
                     @ bool_param ''showInvited'' showInvited)\<rparr>"

definition google_chat_list_members ::
  "platform \<Rightarrow> (api_request \<Rightarrow> js_error + Member ListResponse) \<Rightarrow> world
     \<Rightarrow> string \<Rightarrow> js_number \<Rightarrow> string option \<Rightarrow> string option \<Rightarrow> bool \<Rightarrow> bool
     \<Rightarrow> ResponseFormat \<Rightarrow> (js_error + tool_result) \<times> world" where
  "google_chat_list_members pf remote w spaceName pageSize pageToken filter' showGroups
       showInvited response_format =
     tool_try
       (makeApiRequest pf remote w
          (list_members_request spaceName pageSize pageToken filter' showGroups showInvited))
       (\<lambda>response.
          let members = (case response_items response of None \<Rightarrow> [] | Some l \<Rightarrow> l);
              hasMore = str_truthy (response_nextPageToken response);
              text = formatMembersList pf members response_format hasMore
                       (response_nextPageToken response)
          in Inr (okResult text
                    (MembersPage (length members) members hasMore
                       (response_nextPageToken response))))"

definition get_member_request :: "string \<Rightarrow> api_request" where
  "get_member_request memberName =
     \<lparr>endpoint = memberName, verb = GET, body = None, params = None\<rparr>"

definition google_chat_get_member ::
  "platform \<Rightarrow> (api_request \<Rightarrow> js_error + Member) \<Rightarrow> world
     \<Rightarrow> string \<Rightarrow> ResponseFormat \<Rightarrow> (js_error + tool_result) \<times> world" where
  "google_chat_get_member pf remote w memberName response_format =
     tool_try (makeApiRequest pf remote w (get_member_request memberName))
       (\<lambda>member. Inr (okResult (formatMember pf member response_format) (MemberObj member)))"

definition create_member_request :: "string \<Rightarrow> string \<Rightarrow> MembershipRole \<Rightarrow> api_request" where
  "create_member_request spaceName userId role =
     \<lparr>endpoint = spaceName @ ''/members'', verb = POST,
      body = Some (JObj
        [(''member'', JObj [(''name'', JStr userId), (''type'', JStr ''HUMAN'')]),
         (''role'', JStr (MembershipRole_string role))]),
      params = None\<rparr>"

definition google_chat_create_member ::
  "platform \<Rightarrow> (api_request \<Rightarrow> js_error + Member) \<Rightarrow> world
     \<Rightarrow> string \<Rightarrow> string \<Rightarrow> MembershipRole \<Rightarrow> ResponseFormat \<Rightarrow> (js_error + tool_result) \<times> world" where
  "google_chat_create_member pf remote w spaceName userId role response_format =
     tool_try (makeApiRequest pf remote w (create_member_request spaceName userId role))
       (\<lambda>member.
          Inr (okResult
                 (''Member added successfully!\<newline>\<newline>'' @ formatMember pf member response_format)
                 (MemberObj member)))"

definition delete_member_request :: "string \<Rightarrow> api_request" where
  "delete_member_request memberName =
     \<lparr>endpoint = memberName, verb = DELETE, body = None, params = None\<rparr>"

definition google_chat_delete_member ::
  "platform \<Rightarrow> (api_request \<Rightarrow> js_error + unit) \<Rightarrow> world \<Rightarrow> string \<Rightarrow> (js_error + tool_result) \<times> world" where
  "google_chat_delete_member pf remote w memberName =
     tool_try (makeApiRequest pf remote w (delete_member_request memberName))
       (\<lambda>response.
          Inr (okResult (''Member `'' @ memberName @ ''` has been removed from the space.'')
                 (Deleted ''memberName'' memberName)))"

subsection \<open>tools/reactions.ts\<close>

definition list_reactions_request ::
  "string \<Rightarrow> js_number \<Rightarrow> string option \<Rightarrow> string option \<Rightarrow> api_request" where
  "list_reactions_request messageName pageSize pageToken filter' =
     \<lparr>endpoint = messageName @ ''/reactions'', verb = GET, body = None,
      params = Some ([(''pageSize'', JNum pageSize)]
                     @ str_param ''pageToken'' pageToken @ str_param ''filter'' filter')\<rparr>"

definition google_chat_list_reactions ::
  "platform \<Rightarrow> (api_request \<Rightarrow> js_error + Reaction ListResponse) \<Rightarrow> world
     \<Rightarrow> string \<Rightarrow> js_number \<Rightarrow> string option \<Rightarrow> string option \<Rightarrow> ResponseFormat
     \<Rightarrow> (js_error + tool_result) \<times> world" where
  "google_chat_list_reactions pf remote w messageName pageSize pageToken filter'
       response_format =
     tool_try
       (makeApiRequest pf remote w
          (list_reactions_request messageName pageSize pageToken filter'))
       (\<lambda>response.
          let reactions = (case response_items response of None \<Rightarrow> [] | Some l \<Rightarrow> l);
              hasMore = str_truthy (response_nextPageToken response)
          in case formatReactionsList pf reactions response_format hasMore
                    (response_nextPageToken response) of
               Inl error \<Rightarrow> Inl error
             | Inr text \<Rightarrow>
                 Inr (okResult text
                        (ReactionsPage (length reactions) reactions hasMore
                           (response_nextPageToken response))))"

definition create_reaction_request :: "string \<Rightarrow> string \<Rightarrow> api_request" where
  "create_reaction_request messageName emoji =
     \<lparr>endpoint = messageName @ ''/reactions'', verb = POST,
      body = Some (JObj [(''emoji'', JObj [(''unicode'', JStr emoji)])]),
      params = None\<rparr>"

definition google_chat_create_reaction ::
  "platform \<Rightarrow> (api_request \<Rightarrow> js_error + Reaction) \<Rightarrow> world
     \<Rightarrow> string \<Rightarrow> string \<Rightarrow> ResponseFormat \<Rightarrow> (js_error + tool_result) \<times> world" where
  "google_chat_create_reaction pf remote w messageName emoji response_format =
     tool_try (makeApiRequest pf remote w (create_reaction_request messageName emoji))
       (\<lambda>reaction.
          Inr (okResult
                 (''Reaction added successfully!\<newline>\<newline>'' @ formatReaction pf reaction response_format)
                 (ReactionObj reaction)))"

definition delete_reaction_request :: "string \<Rightarrow> api_request" where
  "delete_reaction_request reactionName =
     \<lparr>endpoint = reactionName, verb = DELETE, body = None, params = None\<rparr>"

definition google_chat_delete_reaction ::
  "platform \<Rightarrow> (api_request \<Rightarrow> js_error + unit) \<Rightarrow> world \<Rightarrow> string \<Rightarrow> (js_error + tool_result) \<times> world" where
  "google_chat_delete_reaction pf remote w reactionName =
     tool_try (makeApiRequest pf remote w (delete_reaction_request reactionName))
       (\<lambda>response.
          Inr (okResult (''Reaction `'' @ reactionName @ ''` has been removed.'')
                 (Deleted ''reactionName'' reactionName)))"

subsection \<open>tools/attachments.ts\<close>

definition get_attachment_request :: "string \<Rightarrow> api_request" where
  "get_attachment_request attachmentName =
     \<lparr>endpoint = attachmentName, verb = GET, body = None, params = None\<rparr>"

definition google_chat_get_attachment ::
  "platform \<Rightarrow> (api_request \<Rightarrow> js_error + Attachment) \<Rightarrow> world
     \<Rightarrow> string \<Rightarrow> ResponseFormat \<Rightarrow> (js_error + tool_result) \<times> world" where
  "google_chat_get_attachment pf remote w attachmentName response_format =
     tool_try (makeApiRequest pf remote w (get_attachment_request attachmentName))
       (\<lambda>attachment.
          Inr (okResult (formatAttachment pf attachment response_format)
                 (AttachmentObj attachment)))"

text \<open>The upload response is \<open>{attachmentDataRef}\<close>, here that one field.\<close>

definition upload_attachment_request ::
  "platform \<Rightarrow> string \<Rightarrow> string \<Rightarrow> string \<Rightarrow> string \<Rightarrow> api_request" where
  "upload_attachment_request pf spaceName filename contentType contentBase64 =
     \<lparr>endpoint = spaceName @ ''/attachments:upload'', verb = POST,
      body = Some (JObj
        [(''filename'', JStr filename),
         (''contentType'', JStr contentType),
         (''contentLength'', JNum (Num (nat_to_string (base64_length pf contentBase64))))]),
      params = None\<rparr>"

definition google_chat_upload_attachment ::
  "platform \<Rightarrow> (api_request \<Rightarrow> js_error + AttachmentDataRef option) \<Rightarrow> world
     \<Rightarrow> string \<Rightarrow> string \<Rightarrow> string \<Rightarrow> string \<Rightarrow> ResponseFormat \<Rightarrow> (js_error + tool_result) \<times> world" where
  "google_chat_upload_attachment pf remote w spaceName filename contentType contentBase64
       response_format =
     tool_try
       (makeApiRequest pf remote w
          (upload_attachment_request pf spaceName filename contentType contentBase64))
       (\<lambda>response.
          let attachment =
                \<lparr>attachment_name = str_or (Option.bind response resourceName) '''',
                 attachment_contentName = Some filename,
                 attachment_contentType = Some contentType,
                 attachment_dataRef = response,
                 attachment_downloadUri = None,
                 attachment_source = None\<rparr>
          in Inr (okResult
                    (''Attachment uploaded successfully!\<newline>\<newline>'' @
                       formatAttachment pf attachment response_format)
                    (AttachmentObj attachment)))"

section \<open>The specification's wording, and a sample platform\<close>

text \<open>
  The upstream message as the specification words it: the nested \<open>error.message\<close>
  field if present, else the top-level \<open>message\<close> field, else \<open>Unknown error\<close>,
  where a field is present when the object has the key.
\<close>

fun has_field :: "jsval \<Rightarrow> string \<Rightarrow> bool" where
  "has_field (JObj kvs) k = (map_of kvs k \<noteq> None)"
| "has_field v k = False"

definition spec_upstreamMessage :: "jsval \<Rightarrow> jsval" where
  "spec_upstreamMessage d =
     (if has_field (js_get d ''error'') ''message''
      then js_get (js_get d ''error'') ''message''
      else if has_field d ''message'' then js_get d ''message''
      else JStr ''Unknown error'')"

text \<open>
  The credential strategies of the specification, the strategy an authentication client
  stands for (a service-account client without explicit credentials reads the key file
  the path variable names), and the strategy the specification's priority order selects:
  the path first, then the inline payload, then the bearer token.
\<close>

datatype credential_strategy = ServiceAccountPath | ServiceAccountInlineJSON | OAuthBearerToken

fun strategy_of :: "auth_client \<Rightarrow> credential_strategy" where
  "strategy_of (GoogleAuth scopes None) = ServiceAccountPath"
| "strategy_of (GoogleAuth scopes (Some credentials)) = ServiceAccountInlineJSON"
| "strategy_of (OAuth2Client token) = OAuthBearerToken"

definition spec_strategy :: "platform \<Rightarrow> credential_strategy option" where
  "spec_strategy pf =
     (if str_truthy (GOOGLE_APPLICATION_CREDENTIALS pf) then Some ServiceAccountPath
      else if str_truthy (GOOGLE_SERVICE_ACCOUNT_JSON pf) then Some ServiceAccountInlineJSON
      else if str_truthy (GOOGLE_OAUTH_TOKEN pf) then Some OAuthBearerToken
      else None)"

text \<open>
  The grouping of a reaction list as the specification words it. The key of a
  reaction is its unicode emoji, else the uid of its custom emoji, else \<open>?\<close>, a
  field counting when it is there and not empty. There is one group per key, in the
  order of the first occurrence of each key, holding the users of the reactions with
  that key in the order of the input.
\<close>

definition spec_emoji_key :: "Reaction \<Rightarrow> string" where
  "spec_emoji_key r =
     (case reaction_emoji r of
        None \<Rightarrow> ''?''
      | Some e \<Rightarrow>
          (if emoji_unicode e \<noteq> None \<and> emoji_unicode e \<noteq> Some [] then the (emoji_unicode e)
           else case emoji_customEmoji e of
                  None \<Rightarrow> ''?''
                | Some c \<Rightarrow>
                    (if customEmoji_uid c \<noteq> None \<and> customEmoji_uid c \<noteq> Some []
                     then the (customEmoji_uid c) else ''?'')))"

fun first_occurrences :: "'a list \<Rightarrow> 'a list" where
  "first_occurrences [] = []"
| "first_occurrences (x # xs) = x # filter (\<lambda>y. y \<noteq> x) (first_occurrences xs)"

definition users_of :: "Reaction list \<Rightarrow> string \<Rightarrow> string list" where
  "users_of reactions emoji =
     map reactionUser (filter (\<lambda>r. spec_emoji_key r = emoji) reactions)"

definition spec_groups :: "Reaction list \<Rightarrow> reaction_groups" where
  "spec_groups reactions =
     map (\<lambda>emoji. (emoji, \<lparr>group_emoji = emoji, users = users_of reactions emoji\<rparr>))
       (first_occurrences (map spec_emoji_key reactions))"

text \<open>
  A platform for the examples: no credentials configured, a JSON parser that accepts the
  empty object only, and a clock that knows one timestamp.
\<close>

definition sample_platform :: platform where
  "sample_platform =
     \<lparr>GOOGLE_APPLICATION_CREDENTIALS = None,
      GOOGLE_SERVICE_ACCOUNT_JSON = None,
      GOOGLE_OAUTH_TOKEN = None,
      JSON_parse = (\<lambda>s. if s = ''{}'' then Some (JObj []) else None),
      JSON_stringify = (\<lambda>x. ''{}''),
      Date_parse = (\<lambda>s. if s = ''2024-01-15T10:30:00Z'' then Some 1705314600000 else None),
      Intl_format = (\<lambda>t. Inr ''Jan 15, 2024, 10:30 AM''),
      tokenExchange = (\<lambda>scopes credentials. Inr (Some ''ya29.token'')),
      base64_length = (\<lambda>s. (length s div 4) * 3)\<rparr>"

text \<open>
  A platform with a bearer token configured, and a service that refuses every
  connection.
\<close>

definition token_platform :: platform where
  "token_platform = sample_platform\<lparr>GOOGLE_OAUTH_TOKEN := Some ''ya29.abc''\<rparr>"

definition unreachable_service :: "api_request \<Rightarrow> js_error + 'r" where
  "unreachable_service req =
     Inl (AxiosError None (Some ''ECONNREFUSED'') ''connect ECONNREFUSED 142.250.1.1:443'')"

text \<open>
  A service that answers 404 with the body
  \<open>{"error": {"message": {"toString": null}}}\<close>, and a service that answers every
  list request with the given page.
\<close>

definition unprintable_body :: jsval where
  "unprintable_body = JObj [(''error'', JObj [(''message'', JObj [(''toString'', JNull)])])]"

definition unprintable_service :: "api_request \<Rightarrow> js_error + 'r" where
  "unprintable_service req =
     Inl (AxiosError (Some \<lparr>status = Num ''404'', data = unprintable_body\<rparr>)
            (Some ''ERR_BAD_REQUEST'') ''Request failed with status code 404'')"


text \<open>
  Sample entities: a space whose display name alone passes the character limit and
  whose description has 150 characters, a message, a member, and reactions with a
  unicode emoji, with a custom emoji only, and with no emoji.
\<close>

definition long_name_space :: Space where
  "long_name_space =
     \<lparr>space_name = ''spaces/AAA'', space_type = None, space_spaceType = Some ''SPACE'',
      space_threaded = None, space_displayName = Some (replicate 25000 CHR ''a''),
      space_externalUserAllowed = None,
      space_spaceDetails =
        Some \<lparr>details_description = Some (replicate 150 CHR ''Z''),
              details_guidelines = None\<rparr>,
      space_createTime = None, space_membershipCount = None\<rparr>"

definition described_space :: "string \<Rightarrow> string \<Rightarrow> Space" where
  "described_space n d =
     \<lparr>space_name = ''spaces/BBB'', space_type = None, space_spaceType = Some ''SPACE'',
      space_threaded = None, space_displayName = Some n,
      space_externalUserAllowed = None,
      space_spaceDetails = Some \<lparr>details_description = Some d, details_guidelines = None\<rparr>,
      space_createTime = None, space_membershipCount = None\<rparr>"

definition sample_user :: "string \<Rightarrow> User" where
  "sample_user n = \<lparr>user_name = ''users/1'', user_displayName = Some n, user_type = None\<rparr>"

definition sample_message :: Message where
  "sample_message =
     \<lparr>message_name = ''spaces/AAA/messages/B'', message_sender = Some (sample_user ''Ann''),
      message_createTime = Some ''2024-01-15T10:30:00Z'', message_text = Some ''hi'',
      message_thread = None, message_emojiReactionSummaries = None\<rparr>"

definition sample_member :: Member where
  "sample_member =
     \<lparr>member_name = ''spaces/AAA/members/1'', member_state = Some ''JOINED'',
      member_role = None, member_member = Some (sample_user ''Ann''),
      member_createTime = None\<rparr>"

definition sample_reaction :: "string \<Rightarrow> string \<Rightarrow> Reaction" where
  "sample_reaction e n =
     \<lparr>reaction_name = ''spaces/AAA/messages/B/reactions/r'',
      reaction_user = Some (sample_user n),
      reaction_emoji = Some \<lparr>emoji_unicode = Some e, emoji_customEmoji = None\<rparr>\<rparr>"

definition custom_reaction :: "string \<Rightarrow> string \<Rightarrow> Reaction" where
  "custom_reaction uid n =
     \<lparr>reaction_name = ''spaces/AAA/messages/B/reactions/c'',
      reaction_user = Some (sample_user n),
      reaction_emoji =
        Some \<lparr>emoji_unicode = None, emoji_customEmoji = Some \<lparr>customEmoji_uid = Some uid\<rparr>\<rparr>\<rparr>"

definition bare_reaction :: "string \<Rightarrow> Reaction" where
  "bare_reaction n =
     \<lparr>reaction_name = ''spaces/AAA/messages/B/reactions/n'',
      reaction_user = Some (sample_user n), reaction_emoji = None\<rparr>"

section \<open>Verification: the error classifier\<close>

lemma js_template_Inr:
  "js_to_string v = Inr s \<Longrightarrow> js_template pre v post = Inr (pre @ s @ post)"
  by (simp add: js_template_def)

lemma js_template_Inl:
  "js_to_string v = Inl e \<Longrightarrow> js_template pre v post = Inl e"
  by (simp add: js_template_def)

lemma statusMessage_other:
  "st \<notin> {Num ''400'', Num ''401'', Num ''403'', Num ''404'', Num ''409'', Num ''429'',
          Num ''500'', Num ''503''} \<Longrightarrow>
   statusMessage st m =
     js_template (''Error: API request failed ('' @ Number_toString st @ '') - '') m ''''"
  by (simp add: statusMessage_def)

text \<open>
  Claim C1, as amended. For an HTTP response with status 400, 403, 404 or 409
  \<open>handleApiError\<close> returns the message of that class with the upstream message
  inside, and for any other status but 401, 429, 500 and 503 the generic failure with
  the status code and the upstream message, whenever the upstream message converts to
  a string \<open>m\<close> (a string, a number, a boolean and an object without a \<open>toString\<close>
  entry of its own all do). For 401, 429, 500 and 503 it returns the fixed message of
  the class, whatever the body; for a timeout the timeout message; for a refused
  connection or an unresolved host the network message; for any other error the
  unexpected-error message with the raw message, and for a thrown value that converts
  to a string the same with that string. The upstream message is the nested
  \<open>error.message\<close> when that value is truthy (for a string: non-empty), else the
  top-level \<open>message\<close> when that is truthy, else \<open>Unknown error\<close>.
\<close>

theorem handleApiError_classification:
  "(js_to_string (upstreamMessage d) = Inr m \<longrightarrow>
      (let response = (\<lambda>st. AxiosError (Some \<lparr>status = st, data = d\<rparr>) code msg)
       in handleApiError (response (Num ''400'')) =
            Inr (''Error: Bad request - '' @ m @ ''. Check your parameters and try again.'')
        \<and> handleApiError (response (Num ''403'')) =
            Inr (''Error: Permission denied - '' @ m @
                 ''. Ensure the app has the required Chat API scopes.'')
        \<and> handleApiError (response (Num ''404'')) =
            Inr (''Error: Resource not found - '' @ m @
                 ''. Check that the space/message/member ID is correct.'')
        \<and> handleApiError (response (Num ''409'')) =
            Inr (''Error: Conflict - '' @ m @
                 ''. The resource may already exist or be in an invalid state.'')
        \<and> (st \<notin> {Num ''400'', Num ''401'', Num ''403'', Num ''404'', Num ''409'', Num ''429'',
                   Num ''500'', Num ''503''} \<longrightarrow>
             handleApiError (response st) =
               Inr (''Error: API request failed ('' @ Number_toString st @ '') - '' @ m))))
   \<and> handleApiError (AxiosError (Some \<lparr>status = Num ''401'', data = d\<rparr>) code msg) =
         Inr ''Error: Authentication failed. Please check your credentials and ensure they have the required permissions.''
   \<and> handleApiError (AxiosError (Some \<lparr>status = Num ''429'', data = d\<rparr>) code msg) =
         Inr ''Error: Rate limit exceeded. Please wait before making more requests.''
   \<and> handleApiError (AxiosError (Some \<lparr>status = Num ''500'', data = d\<rparr>) code msg) =
         Inr ''Error: Google Chat API server error. Please try again later.''
   \<and> handleApiError (AxiosError (Some \<lparr>status = Num ''503'', data = d\<rparr>) code msg) =
         Inr ''Error: Google Chat API is temporarily unavailable. Please try again later.''
   \<and> handleApiError (AxiosError None (Some ''ECONNABORTED'') msg) =
         Inr ''Error: Request timed out. Please try again.''
   \<and> handleApiError (AxiosError None (Some ''ECONNREFUSED'') msg) =
         Inr ''Error: Unable to connect to Google Chat API. Check your network connection.''
   \<and> handleApiError (AxiosError None (Some ''ENOTFOUND'') msg) =
         Inr ''Error: Unable to connect to Google Chat API. Check your network connection.''
   \<and> (code \<notin> {Some ''ECONNABORTED'', Some ''ENOTFOUND'', Some ''ECONNREFUSED''} \<longrightarrow>
        handleApiError (AxiosError None code msg) = Inr (''Error: Unexpected error - '' @ msg))
   \<and> handleApiError (Error msg) = Inr (''Error: Unexpected error - '' @ msg)
   \<and> (js_to_string v = Inr raw \<longrightarrow>
        handleApiError (Thrown v) = Inr (''Error: Unexpected error - '' @ raw))
   \<and> upstreamMessage d =
       (if truthy (js_get (js_get d ''error'') ''message'')
        then js_get (js_get d ''error'') ''message''
        else if truthy (js_get d ''message'') then js_get d ''message''
        else JStr ''Unknown error'')
   \<and> js_to_string (JStr s) = Inr s
   \<and> js_to_string (JNum n) = Inr (Number_toString n)
   \<and> js_to_string (JBool b) = Inr (if b then ''true'' else ''false'')
   \<and> (map_of kvs ''toString'' = None \<longrightarrow> js_to_string (JObj kvs) = Inr ''[object Object]'')"
proof -
  let ?response = "\<lambda>st. AxiosError (Some \<lparr>status = st, data = d\<rparr>) code msg"
  have inserted: "js_to_string (upstreamMessage d) = Inr m \<longrightarrow>
      handleApiError (?response (Num ''400'')) =
        Inr (''Error: Bad request - '' @ m @ ''. Check your parameters and try again.'')
    \<and> handleApiError (?response (Num ''403'')) =
        Inr (''Error: Permission denied - '' @ m @
             ''. Ensure the app has the required Chat API scopes.'')
    \<and> handleApiError (?response (Num ''404'')) =
        Inr (''Error: Resource not found - '' @ m @
             ''. Check that the space/message/member ID is correct.'')
    \<and> handleApiError (?response (Num ''409'')) =
        Inr (''Error: Conflict - '' @ m @
             ''. The resource may already exist or be in an invalid state.'')"
    by (simp add: statusMessage_def js_template_Inr)
  have other: "js_to_string (upstreamMessage d) = Inr m \<longrightarrow>
      st \<notin> {Num ''400'', Num ''401'', Num ''403'', Num ''404'', Num ''409'', Num ''429'',
              Num ''500'', Num ''503''} \<longrightarrow>
      handleApiError (?response st) =
        Inr (''Error: API request failed ('' @ Number_toString st @ '') - '' @ m)"
    by (simp add: statusMessage_other js_template_Inr)
  have fixed:
    "handleApiError (?response (Num ''401'')) =
       Inr ''Error: Authentication failed. Please check your credentials and ensure they have the required permissions.''"
    "handleApiError (?response (Num ''429'')) =
       Inr ''Error: Rate limit exceeded. Please wait before making more requests.''"
    "handleApiError (?response (Num ''500'')) =
       Inr ''Error: Google Chat API server error. Please try again later.''"
    "handleApiError (?response (Num ''503'')) =
       Inr ''Error: Google Chat API is temporarily unavailable. Please try again later.''"
    by (simp_all add: statusMessage_def)
  have transport:
    "handleApiError (AxiosError None (Some ''ECONNABORTED'') msg) =
       Inr ''Error: Request timed out. Please try again.''"
    "handleApiError (AxiosError None (Some ''ECONNREFUSED'') msg) =
       Inr ''Error: Unable to connect to Google Chat API. Check your network connection.''"
    "handleApiError (AxiosError None (Some ''ENOTFOUND'') msg) =
       Inr ''Error: Unable to connect to Google Chat API. Check your network connection.''"
    by simp_all
  have rest:
    "code \<notin> {Some ''ECONNABORTED'', Some ''ENOTFOUND'', Some ''ECONNREFUSED''} \<longrightarrow>
       handleApiError (AxiosError None code msg) = Inr (''Error: Unexpected error - '' @ msg)"
    "handleApiError (Error msg) = Inr (''Error: Unexpected error - '' @ msg)"
    "js_to_string v = Inr raw \<longrightarrow>
       handleApiError (Thrown v) = Inr (''Error: Unexpected error - '' @ raw)"
    by (simp_all add: unexpectedError_def js_template_Inr)
  have upstream: "upstreamMessage d =
       (if truthy (js_get (js_get d ''error'') ''message'')
        then js_get (js_get d ''error'') ''message''
        else if truthy (js_get d ''message'') then js_get d ''message''
        else JStr ''Unknown error'')"
    by (simp add: upstreamMessage_def js_or_def)
  have conversions:
    "js_to_string (JStr s) = Inr s"
    "js_to_string (JNum n) = Inr (Number_toString n)"
    "js_to_string (JBool b) = Inr (if b then ''true'' else ''false'')"
    "map_of kvs ''toString'' = None \<longrightarrow> js_to_string (JObj kvs) = Inr ''[object Object]''"
    by simp_all
  show ?thesis
    unfolding Let_def using inserted other fixed transport rest upstream conversions by blast
qed

theorem handleApiError_classification_witness:
  "js_to_string
     (upstreamMessage (JObj [(''error'', JObj [(''message'', JStr ''Space not found'')])])) =
     Inr ''Space not found''
   \<and> Num ''418'' \<notin> {Num ''400'', Num ''401'', Num ''403'', Num ''404'', Num ''409'', Num ''429'',
                     Num ''500'', Num ''503''}
   \<and> Some ''EPIPE'' \<notin> {Some ''ECONNABORTED'', Some ''ENOTFOUND'', Some ''ECONNREFUSED''}
   \<and> js_to_string (JArr [JNum (Num ''1e+21''), JNull, JStr ''x'']) = Inr ''1e+21,,x''
   \<and> map_of [(''code'', JNum (Num ''7''))] ''toString'' = None
   \<and> handleApiError
        (AxiosError
           (Some \<lparr>status = Num ''418'',
                  data = JObj [(''error'', JObj [(''message'', JStr ''Space not found'')])]\<rparr>)
           (Some ''EPIPE'') ''socket hang up'') =
      Inr ''Error: API request failed (418) - Space not found''
   \<and> handleApiError
        (AxiosError
           (Some \<lparr>status = Num ''404'',
                  data = JObj [(''error'', JObj [(''message'', JStr ''Space not found'')])]\<rparr>)
           (Some ''EPIPE'') ''socket hang up'') =
      Inr ''Error: Resource not found - Space not found. Check that the space/message/member ID is correct.''
   \<and> handleApiError (AxiosError None (Some ''EPIPE'') ''socket hang up'') =
      Inr ''Error: Unexpected error - socket hang up''
   \<and> handleApiError (Thrown (JArr [JNum (Num ''1e+21''), JNull, JStr ''x''])) =
      Inr ''Error: Unexpected error - 1e+21,,x''
   \<and> js_to_string (JObj [(''code'', JNum (Num ''7''))]) = Inr ''[object Object]''"
  using handleApiError_classification
          [of "JObj [(''error'', JObj [(''message'', JStr ''Space not found'')])]"
              "''Space not found''" "Some ''EPIPE''" "''socket hang up''" "Num ''418''"
              "JArr [JNum (Num ''1e+21''), JNull, JStr ''x'']" "''1e+21,,x''"
              "''''" "Num ''0''" True "[(''code'', JNum (Num ''7''))]"]
  by (simp add: Let_def upstreamMessage_def js_or_def)

text \<open>
  Claim C1 as stated fails in two places. Where the nested \<open>error.message\<close> is
  present but empty, the specification's wording selects the empty nested message and
  the code falls through to the top-level message. And the classifier is not total:
  on the body \<open>{"error": {"message": {"toString": null}}}\<close> with status 404 the
  template literal cannot convert the message and \<open>handleApiError\<close> throws.
\<close>

theorem upstream_message_counterexample:
  "handleApiError
     (AxiosError
        (Some \<lparr>status = Num ''400'',
               data = JObj [(''error'', JObj [(''message'', JStr '''')]),
                            (''message'', JStr ''quota exceeded'')]\<rparr>)
        None ''Request failed with status code 400'') =
     Inr ''Error: Bad request - quota exceeded. Check your parameters and try again.''
   \<and> spec_upstreamMessage
         (JObj [(''error'', JObj [(''message'', JStr '''')]),
                (''message'', JStr ''quota exceeded'')]) = JStr ''''
   \<and> upstreamMessage
         (JObj [(''error'', JObj [(''message'', JStr '''')]),
                (''message'', JStr ''quota exceeded'')]) = JStr ''quota exceeded''
   \<and> handleApiError
        (AxiosError
           (Some \<lparr>status = Num ''400'',
                  data = JObj [(''error'', JObj [(''message'', JStr '''')]),
                               (''message'', JStr ''quota exceeded'')]\<rparr>)
           None ''Request failed with status code 400'') \<noteq>
      js_template ''Error: Bad request - ''
        (spec_upstreamMessage
           (JObj [(''error'', JObj [(''message'', JStr '''')]),
                  (''message'', JStr ''quota exceeded'')]))
        ''. Check your parameters and try again.''
   \<and> handleApiError
        (AxiosError
           (Some \<lparr>status = Num ''404'',
                  data = JObj [(''error'', JObj [(''message'', JObj [(''toString'', JNull)])])]\<rparr>)
           (Some ''ERR_BAD_REQUEST'') ''Request failed with status code 404'') =
      Inl (Error ''Cannot convert object to primitive value'')"
  by (simp add: statusMessage_def upstreamMessage_def js_or_def spec_upstreamMessage_def
        js_template_def cannotConvert_def)

section \<open>Verification: timestamps\<close>

text \<open>
  Claim C2. The formatter never throws, but for a timestamp that does not parse it
  returns the text of an invalid date and not the input: the \<open>catch\<close> branch that
  would return the input is never taken, since neither the \<open>Date\<close> constructor nor
  \<open>toLocaleString\<close> throws on an unparseable string.
\<close>

theorem formatTimestamp_unparseable:
  "Date_parse pf timestamp = None \<Longrightarrow> formatTimestamp pf timestamp = ''Invalid Date''"
  by (simp add: formatTimestamp_def Date_toLocaleString_def)

theorem formatTimestamp_unparseable_witness:
  "Date_parse sample_platform ''not-a-date'' = None
   \<and> formatTimestamp sample_platform ''not-a-date'' = ''Invalid Date''
   \<and> formatTimestamp sample_platform ''not-a-date'' \<noteq> ''not-a-date''"
  using formatTimestamp_unparseable [of sample_platform "''not-a-date''"]
  by (simp add: sample_platform_def)

section \<open>Verification: reaction grouping\<close>

lemma reactionEmoji_key: "reactionEmoji r = spec_emoji_key r"
  by (auto simp: reactionEmoji_def spec_emoji_key_def split: option.splits)

lemma first_occurrences_snoc:
  "first_occurrences (xs @ [x]) =
     (if x \<in> set xs then first_occurrences xs else first_occurrences xs @ [x])"
  by (induction xs) auto

lemma set_first_occurrences: "set (first_occurrences xs) = set xs"
  by (induction xs) auto

lemma distinct_first_occurrences: "distinct (first_occurrences xs)"
  by (induction xs) (auto simp: set_first_occurrences)

lemma Map_set_present: "k \<in> set ks \<Longrightarrow> distinct ks \<Longrightarrow>
   Map_set (map (\<lambda>k. (k, f k)) ks) k v = map (\<lambda>k'. (k', if k' = k then v else f k')) ks"
  by (induction ks) auto

lemma map_of_keyed: "map_of (map (\<lambda>k. (k, f k)) ks) k = (if k \<in> set ks then Some (f k) else None)"
  by (induction ks) auto

lemma groupReactions_snoc:
  "groupReactions g (rs @ [r]) =
     (case groupReactions g rs of Inl e \<Rightarrow> Inl e | Inr g' \<Rightarrow> groupStep g' r)"
  by (induction rs arbitrary: g) (auto split: sum.splits)

lemma users_of_snoc:
  "users_of (rs @ [r]) k = users_of rs k @ (if spec_emoji_key r = k then [reactionUser r] else [])"
  by (simp add: users_of_def)

lemma users_of_absent: "k \<notin> spec_emoji_key ` set rs \<Longrightarrow> users_of rs k = []"
  by (auto simp: users_of_def filter_empty_conv)

lemma Map_set_new: "k \<notin> fst ` set m \<Longrightarrow> Map_set m k v = m @ [(k, v)]"
  by (induction m) auto

lemma Map_set_last: "k \<notin> fst ` set m \<Longrightarrow> Map_set (m @ [(k, v0)]) k v = m @ [(k, v)]"
  by (induction m) auto

lemma map_of_last: "k \<notin> fst ` set m \<Longrightarrow> map_of (m @ [(k, v)]) k = Some v"
  by (induction m) auto

lemma fst_spec_groups: "fst ` set (spec_groups rs) = spec_emoji_key ` set rs"
  by (force simp: spec_groups_def set_first_occurrences)

lemma groupStep_spec_groups: "groupStep (spec_groups rs) r = Inr (spec_groups (rs @ [r]))"
proof (cases "spec_emoji_key r \<in> spec_emoji_key ` set rs")
  case True
  let ?e = "spec_emoji_key r"
  let ?ks = "first_occurrences (map spec_emoji_key rs)"
  have mem: "?e \<in> set ?ks" using True by (simp add: set_first_occurrences)
  have has: "Map_has (spec_groups rs) ?e"
    using mem by (simp add: Map_has_def spec_groups_def map_of_keyed)
  have get: "Map_get (spec_groups rs) ?e = Some \<lparr>group_emoji = ?e, users = users_of rs ?e\<rparr>"
    using mem by (simp add: Map_get_def spec_groups_def map_of_keyed)
  have "Map_set (spec_groups rs) ?e \<lparr>group_emoji = ?e, users = users_of rs ?e @ [reactionUser r]\<rparr>
        = spec_groups (rs @ [r])"
    using mem True
    by (simp add: spec_groups_def Map_set_present distinct_first_occurrences
          first_occurrences_snoc users_of_snoc)
  then show ?thesis
    using has get by (simp add: groupStep_def Let_def reactionEmoji_key)
next
  case False
  let ?e = "spec_emoji_key r"
  have absent: "?e \<notin> fst ` set (spec_groups rs)"
    using False by (simp add: fst_spec_groups)
  have has: "\<not> Map_has (spec_groups rs) ?e"
    using False by (simp add: Map_has_def spec_groups_def map_of_keyed set_first_occurrences)
  have "spec_groups (rs @ [r]) =
          spec_groups rs @ [(?e, \<lparr>group_emoji = ?e, users = [reactionUser r]\<rparr>)]"
    using False
    by (auto simp: spec_groups_def first_occurrences_snoc users_of_snoc users_of_absent
          set_first_occurrences)
  moreover have "Map_set (spec_groups rs) ?e \<lparr>group_emoji = ?e, users = []\<rparr> =
          spec_groups rs @ [(?e, \<lparr>group_emoji = ?e, users = []\<rparr>)]"
    using absent by (rule Map_set_new)
  moreover have "Map_get (spec_groups rs @ [(?e, \<lparr>group_emoji = ?e, users = []\<rparr>)]) ?e =
          Some \<lparr>group_emoji = ?e, users = []\<rparr>"
    unfolding Map_get_def using absent by (rule map_of_last)
  moreover have "Map_set (spec_groups rs @ [(?e, \<lparr>group_emoji = ?e, users = []\<rparr>)]) ?e
            \<lparr>group_emoji = ?e, users = [reactionUser r]\<rparr> =
          spec_groups rs @ [(?e, \<lparr>group_emoji = ?e, users = [reactionUser r]\<rparr>)]"
    using absent by (rule Map_set_last)
  ultimately show ?thesis
    using has by (simp add: groupStep_def Let_def reactionEmoji_key)
qed

lemma groupReactions_spec_groups: "groupReactions [] rs = Inr (spec_groups rs)"
proof (induction rs rule: rev_induct)
  case Nil
  show ?case by (simp add: spec_groups_def)
next
  case (snoc r rs)
  then show ?case by (simp add: groupReactions_snoc groupStep_spec_groups)
qed

lemma indicator_sum:
  "distinct ks \<Longrightarrow>
   sum_list (map (\<lambda>k. if e = k then 1 else 0) ks) = (if e \<in> set ks then 1 else (0::nat))"
  by (induction ks) auto

lemma group_sizes:
  "distinct ks \<Longrightarrow> spec_emoji_key ` set rs \<subseteq> set ks \<Longrightarrow>
   sum_list (map (\<lambda>k. length (users_of rs k)) ks) = length rs"
proof (induction rs)
  case Nil
  then show ?case by (simp add: users_of_def)
next
  case (Cons r rs)
  have "sum_list (map (\<lambda>k. length (users_of (r # rs) k)) ks) =
        sum_list (map (\<lambda>k. (if spec_emoji_key r = k then 1 else 0) + length (users_of rs k)) ks)"
    by (rule arg_cong [where f = sum_list]) (simp add: users_of_def)
  also have "\<dots> = sum_list (map (\<lambda>k. if spec_emoji_key r = k then 1 else 0) ks)
                  + sum_list (map (\<lambda>k. length (users_of rs k)) ks)"
    by (simp add: sum_list_addf)
  also have "\<dots> = 1 + length rs"
    using Cons by (simp add: indicator_sum)
  finally show ?case by simp
qed

lemma spec_groups_total:
  "sum_list (map (\<lambda>entry. length (users (snd entry))) (spec_groups rs)) = length rs"
proof -
  have "sum_list (map (\<lambda>entry. length (users (snd entry))) (spec_groups rs)) =
        sum_list (map (\<lambda>k. length (users_of rs k)) (first_occurrences (map spec_emoji_key rs)))"
    by (simp add: spec_groups_def comp_def)
  then show ?thesis
    by (simp add: group_sizes distinct_first_occurrences set_first_occurrences)
qed

text \<open>
  Claim C10. The grouping loop never fails and computes the grouping of the
  specification. The key of a reaction is its unicode emoji when that is there and
  not empty, else the uid of its custom emoji when that is there and not empty, else
  \<open>?\<close>. The groups appear in the order of the first occurrence of each key, each
  group holds the users of exactly the reactions with its key, so every reaction adds
  one user to one group, and the group sizes add up to the number of reactions. The
  text of a non-empty list is the header followed by one line per group.
\<close>

theorem reactions_grouping:
  "groupReactions [] reactions = Inr (spec_groups reactions)
   \<and> map fst (spec_groups reactions) = first_occurrences (map spec_emoji_key reactions)
   \<and> distinct (map fst (spec_groups reactions))
   \<and> sum_list (map (\<lambda>entry. length (users (snd entry))) (spec_groups reactions)) =
       length reactions
   \<and> (reactions \<noteq> [] \<longrightarrow>
        formatReactionsList pf reactions MARKDOWN hasMore tok =
          Inr (joinLines
                 ([''# Reactions ('' @ nat_to_string (length reactions) @ '' results)'', '''']
                  @ map groupLine (spec_groups reactions)
                  @ reactionsFooter hasMore tok)))
   \<and> reactionEmoji reaction = spec_emoji_key reaction
   \<and> (unicode \<noteq> [] \<longrightarrow>
        reactionEmoji
          \<lparr>reaction_name = name, reaction_user = user,
           reaction_emoji = Some \<lparr>emoji_unicode = Some unicode, emoji_customEmoji = custom\<rparr>\<rparr> =
        unicode)
   \<and> (uid \<noteq> [] \<longrightarrow>
        reactionEmoji
          \<lparr>reaction_name = name, reaction_user = user,
           reaction_emoji =
             Some \<lparr>emoji_unicode = None,
                   emoji_customEmoji = Some \<lparr>customEmoji_uid = Some uid\<rparr>\<rparr>\<rparr> = uid
        \<and> reactionEmoji
          \<lparr>reaction_name = name, reaction_user = user,
           reaction_emoji =
             Some \<lparr>emoji_unicode = Some [],
                   emoji_customEmoji = Some \<lparr>customEmoji_uid = Some uid\<rparr>\<rparr>\<rparr> = uid)
   \<and> reactionEmoji
        \<lparr>reaction_name = name, reaction_user = user,
         reaction_emoji = Some \<lparr>emoji_unicode = None, emoji_customEmoji = None\<rparr>\<rparr> = ''?''
   \<and> reactionEmoji
        \<lparr>reaction_name = name, reaction_user = user,
         reaction_emoji =
           Some \<lparr>emoji_unicode = None,
                 emoji_customEmoji = Some \<lparr>customEmoji_uid = None\<rparr>\<rparr>\<rparr> = ''?''
   \<and> reactionEmoji \<lparr>reaction_name = name, reaction_user = user, reaction_emoji = None\<rparr> = ''?''"
proof -
  have keys: "map fst (spec_groups reactions) = first_occurrences (map spec_emoji_key reactions)"
    by (simp add: spec_groups_def comp_def)
  have grouping:
    "groupReactions [] reactions = Inr (spec_groups reactions)"
    "distinct (map fst (spec_groups reactions))"
    "sum_list (map (\<lambda>entry. length (users (snd entry))) (spec_groups reactions)) =
       length reactions"
    by (simp_all add: groupReactions_spec_groups keys distinct_first_occurrences
          spec_groups_total)
  have rendering: "reactions \<noteq> [] \<longrightarrow>
        formatReactionsList pf reactions MARKDOWN hasMore tok =
          Inr (joinLines
                 ([''# Reactions ('' @ nat_to_string (length reactions) @ '' results)'', '''']
                  @ map groupLine (spec_groups reactions)
                  @ reactionsFooter hasMore tok))"
    by (simp add: groupReactions_spec_groups formatReactionsList_def)
  have rule: "reactionEmoji reaction = spec_emoji_key reaction"
    by (rule reactionEmoji_key)
  have cases:
    "unicode \<noteq> [] \<longrightarrow>
        reactionEmoji
          \<lparr>reaction_name = name, reaction_user = user,
           reaction_emoji = Some \<lparr>emoji_unicode = Some unicode, emoji_customEmoji = custom\<rparr>\<rparr> =
        unicode"
    "uid \<noteq> [] \<longrightarrow>
        reactionEmoji
          \<lparr>reaction_name = name, reaction_user = user,
           reaction_emoji =
             Some \<lparr>emoji_unicode = None,
                   emoji_customEmoji = Some \<lparr>customEmoji_uid = Some uid\<rparr>\<rparr>\<rparr> = uid
        \<and> reactionEmoji
          \<lparr>reaction_name = name, reaction_user = user,
           reaction_emoji =
             Some \<lparr>emoji_unicode = Some [],
                   emoji_customEmoji = Some \<lparr>customEmoji_uid = Some uid\<rparr>\<rparr>\<rparr> = uid"
    "reactionEmoji
        \<lparr>reaction_name = name, reaction_user = user,
         reaction_emoji = Some \<lparr>emoji_unicode = None, emoji_customEmoji = None\<rparr>\<rparr> = ''?''"
    "reactionEmoji
        \<lparr>reaction_name = name, reaction_user = user,
         reaction_emoji =
           Some \<lparr>emoji_unicode = None,
                 emoji_customEmoji = Some \<lparr>customEmoji_uid = None\<rparr>\<rparr>\<rparr> = ''?''"
    "reactionEmoji \<lparr>reaction_name = name, reaction_user = user, reaction_emoji = None\<rparr> = ''?''"
    by (simp_all add: reactionEmoji_def)
  show ?thesis
    using keys grouping rendering rule cases by blast
qed

theorem reactions_grouping_witness:
  "[sample_reaction ''+1'' ''Ann'', custom_reaction ''party'' ''Bob'', bare_reaction ''Dee'',
    sample_reaction ''+1'' ''Cy'', custom_reaction ''party'' ''Eve''] \<noteq> []
   \<and> ''+1'' \<noteq> [] \<and> ''party'' \<noteq> []
   \<and> groupReactions []
        [sample_reaction ''+1'' ''Ann'', custom_reaction ''party'' ''Bob'', bare_reaction ''Dee'',
         sample_reaction ''+1'' ''Cy'', custom_reaction ''party'' ''Eve''] =
       Inr [(''+1'', \<lparr>group_emoji = ''+1'', users = [''Ann'', ''Cy'']\<rparr>),
            (''party'', \<lparr>group_emoji = ''party'', users = [''Bob'', ''Eve'']\<rparr>),
            (''?'', \<lparr>group_emoji = ''?'', users = [''Dee'']\<rparr>)]
   \<and> formatReactionsList sample_platform
         [sample_reaction ''+1'' ''Ann'', custom_reaction ''party'' ''Bob'', bare_reaction ''Dee'',
          sample_reaction ''+1'' ''Cy'', custom_reaction ''party'' ''Eve''] MARKDOWN False None =
       Inr ''# Reactions (5 results)\<newline>\<newline>- +1 (2): Ann, Cy\<newline>- party (2): Bob, Eve\<newline>- ? (1): Dee''
   \<and> reactionEmoji (custom_reaction ''party'' ''Bob'') = ''party''
   \<and> reactionEmoji (sample_reaction ''+1'' ''Ann'') = ''+1''
   \<and> reactionEmoji (bare_reaction ''Dee'') = ''?''"
  using reactions_grouping
          [where reactions = "[sample_reaction ''+1'' ''Ann'', custom_reaction ''party'' ''Bob'',
                bare_reaction ''Dee'', sample_reaction ''+1'' ''Cy'',
                custom_reaction ''party'' ''Eve'']"
             and pf = sample_platform and hasMore = False and tok = None
             and reaction = "custom_reaction ''party'' ''Bob''"
             and unicode = "''+1''" and uid = "''party''"
             and name = "''spaces/AAA/messages/B/reactions/r''"
             and user = "Some (sample_user ''Ann'')" and custom = None]
  by (simp add: spec_groups_def users_of_def spec_emoji_key_def sample_reaction_def
        custom_reaction_def bare_reaction_def sample_user_def
        groupStep_def Map_has_def Map_get_def Let_def reactionEmoji_def
        reactionUser_def joinLines_def groupLine_def reactionsFooter_def
        nat_to_string.simps digit_def)

section \<open>Verification: truncation\<close>

lemma length_truncationNotice: "length truncationNotice = 81"
  by (simp add: truncationNotice_def)

lemma truncateResponse_cases:
  "truncateResponse t =
     (if 25000 < length t then take (25000 - 100) t @ truncationNotice else t)"
  by (simp add: truncateResponse_def CHARACTER_LIMIT_def)

lemma length_truncateResponse: "length (truncateResponse t) \<le> 25000"
  by (simp add: truncateResponse_cases length_truncationNotice)

lemma long_name_space_text:
  "length (joinLines (spacesListLines [long_name_space] False None)) = 25190"
  by (simp add: long_name_space_def joinLines_def spacesListLines_def spaceListBlock_def
        paginationFooter_def spaceTypeLabel_def space_description_def preview100_def
        nat_to_string.simps digit_def)

text \<open>
  Claim C3. For a space, message or member collection, the text mode returns the
  assembled text unchanged when it has at most 25,000 characters, and otherwise its
  first 25,000 - 100 characters followed by the truncation notice, which has at most
  25,000 characters. The renderer is a function of its arguments, so the same
  collection renders to the same text; the text of a space or member list does not
  even depend on the platform (that of a message list does, through the time zone of
  the timestamps). The reaction list is the one collection that is returned as
  assembled whatever its length: \<open>formatReactionsList\<close> does not call
  \<open>truncateResponse\<close>, so a reaction list of more than 25,000 characters is
  returned whole, with neither the cut nor the notice.
\<close>

theorem collection_truncation:
  "(spaces \<noteq> [] \<longrightarrow>
      (let t = joinLines (spacesListLines spaces hasMore tok);
           out = formatSpacesList pf spaces MARKDOWN hasMore tok
       in if 25000 < length t
          then out = take (25000 - 100) t @
                 ''\<newline>\<newline>---\<newline>*Response truncated due to size limit. Use pagination to see more results.*''
               \<and> length out \<le> 25000
          else out = t))
   \<and> (messages \<noteq> [] \<longrightarrow>
      (let t = joinLines (messagesListLines pf messages hasMore tok);
           out = formatMessagesList pf messages MARKDOWN hasMore tok
       in if 25000 < length t
          then out = take (25000 - 100) t @
                 ''\<newline>\<newline>---\<newline>*Response truncated due to size limit. Use pagination to see more results.*''
               \<and> length out \<le> 25000
          else out = t))
   \<and> (members \<noteq> [] \<longrightarrow>
      (let t = joinLines (membersListLines members hasMore tok);
           out = formatMembersList pf members MARKDOWN hasMore tok
       in if 25000 < length t
          then out = take (25000 - 100) t @
                 ''\<newline>\<newline>---\<newline>*Response truncated due to size limit. Use pagination to see more results.*''
               \<and> length out \<le> 25000
          else out = t))
   \<and> formatSpacesList pf spaces MARKDOWN hasMore tok =
       formatSpacesList pf' spaces MARKDOWN hasMore tok
   \<and> formatMembersList pf members MARKDOWN hasMore tok =
       formatMembersList pf' members MARKDOWN hasMore tok
   \<and> (reactions \<noteq> [] \<longrightarrow>
      (let t = joinLines
                 ([''# Reactions ('' @ nat_to_string (length reactions) @ '' results)'', '''']
                  @ map groupLine (spec_groups reactions)
                  @ reactionsFooter hasMore tok)
       in formatReactionsList pf reactions MARKDOWN hasMore tok = Inr t))"
proof -
  have notice: "truncationNotice =
      ''\<newline>\<newline>---\<newline>*Response truncated due to size limit. Use pagination to see more results.*''"
    by (simp add: truncationNotice_def)
  have cut: "spaces \<noteq> [] \<longrightarrow>
      (let t = joinLines (spacesListLines spaces hasMore tok);
           out = formatSpacesList pf spaces MARKDOWN hasMore tok
       in if 25000 < length t
          then out = take (25000 - 100) t @ truncationNotice \<and> length out \<le> 25000
          else out = t)"
    "messages \<noteq> [] \<longrightarrow>
      (let t = joinLines (messagesListLines pf messages hasMore tok);
           out = formatMessagesList pf messages MARKDOWN hasMore tok
       in if 25000 < length t
          then out = take (25000 - 100) t @ truncationNotice \<and> length out \<le> 25000
          else out = t)"
    "members \<noteq> [] \<longrightarrow>
      (let t = joinLines (membersListLines members hasMore tok);
           out = formatMembersList pf members MARKDOWN hasMore tok
       in if 25000 < length t
          then out = take (25000 - 100) t @ truncationNotice \<and> length out \<le> 25000
          else out = t)"
    by (simp_all add: Let_def formatSpacesList_def formatMessagesList_def formatMembersList_def
          truncateResponse_cases length_truncationNotice)
  have same:
    "formatSpacesList pf spaces MARKDOWN hasMore tok =
       formatSpacesList pf' spaces MARKDOWN hasMore tok"
    "formatMembersList pf members MARKDOWN hasMore tok =
       formatMembersList pf' members MARKDOWN hasMore tok"
    by (simp_all add: formatSpacesList_def formatMembersList_def)
  have uncut: "reactions \<noteq> [] \<longrightarrow>
      (let t = joinLines
                 ([''# Reactions ('' @ nat_to_string (length reactions) @ '' results)'', '''']
                  @ map groupLine (spec_groups reactions)
                  @ reactionsFooter hasMore tok)
       in formatReactionsList pf reactions MARKDOWN hasMore tok = Inr t)"
    by (simp add: groupReactions_spec_groups formatReactionsList_def)
  show ?thesis
    using cut [unfolded notice] same uncut by blast
qed

theorem collection_truncation_witness:
  "[long_name_space] \<noteq> []
   \<and> 25000 < length (joinLines (spacesListLines [long_name_space] False None))
   \<and> formatSpacesList sample_platform [long_name_space] MARKDOWN False None =
       take (25000 - 100) (joinLines (spacesListLines [long_name_space] False None))
       @ ''\<newline>\<newline>---\<newline>*Response truncated due to size limit. Use pagination to see more results.*''
   \<and> length (formatSpacesList sample_platform [long_name_space] MARKDOWN False None) \<le> 25000
   \<and> [sample_message] \<noteq> []
   \<and> formatMessagesList sample_platform [sample_message] MARKDOWN False None =
       ''# Messages (1 results)\<newline>\<newline>### Ann - Jan 15, 2024, 10:30 AM\<newline>- **ID**: `spaces/AAA/messages/B`\<newline>- **Content**: hi\<newline>''
   \<and> [sample_member] \<noteq> []
   \<and> formatMembersList sample_platform [sample_member] MARKDOWN False None =
       ''# Members (1 results)\<newline>\<newline>## Ann\<newline>- **ID**: `spaces/AAA/members/1`\<newline>- **Role**: Unknown\<newline>- **State**: JOINED\<newline>''
   \<and> [custom_reaction ''party'' (replicate 25000 CHR ''b'')] \<noteq> []
   \<and> formatReactionsList sample_platform
         [custom_reaction ''party'' (replicate 25000 CHR ''b'')] MARKDOWN False None =
       Inr (''# Reactions (1 results)\<newline>\<newline>- party (1): '' @ replicate 25000 CHR ''b'')
   \<and> length (''# Reactions (1 results)\<newline>\<newline>- party (1): '' @ replicate 25000 CHR ''b'') =
       25038"
  using collection_truncation
          [where spaces = "[long_name_space]" and hasMore = False and tok = None
             and pf = sample_platform and messages = "[sample_message]"
             and members = "[sample_member]" and pf' = sample_platform
             and reactions = "[custom_reaction ''party'' (replicate 25000 CHR ''b'')]"]
        long_name_space_text
  by (simp add: Let_def joinLines_def messagesListLines_def messageListBlock_def
        membersListLines_def memberListBlock_def memberDisplayName_def paginationFooter_def
        sample_message_def sample_member_def sample_user_def sample_platform_def
        formatTimestamp_def Date_toLocaleString_def preview100_def
        spec_groups_def users_of_def spec_emoji_key_def custom_reaction_def reactionUser_def
        groupLine_def reactionsFooter_def moreResultsLine_def
        length_truncationNotice nat_to_string.simps digit_def)

text \<open>
  Claim C4, as amended. The text mode of the space, message and member lists passes
  through the cut rule, so none of these outputs has more than 25,000 characters.
  (The renderings of a single entity are returned as assembled.)
\<close>

theorem list_renderings_bounded:
  "length (formatSpacesList pf spaces MARKDOWN hasMore tok) \<le> 25000
   \<and> length (formatMessagesList pf messages MARKDOWN hasMore tok) \<le> 25000
   \<and> length (formatMembersList pf members MARKDOWN hasMore tok) \<le> 25000"
  by (simp add: formatSpacesList_def formatMessagesList_def formatMembersList_def
        length_truncateResponse)

text \<open>
  Claim C4 as stated fails: the detail rendering of a space with a long display name is
  returned uncut with more than 25,000 characters, and so is a reaction list with a
  long user name.
\<close>

theorem uncut_rendering_counterexample:
  "25000 < length (formatSpace sample_platform long_name_space MARKDOWN)
   \<and> formatReactionsList sample_platform
         [sample_reaction ''+1'' (replicate 25000 CHR ''a'')] MARKDOWN False None =
       Inr (''# Reactions (1 results)\<newline>\<newline>- +1 (1): '' @ replicate 25000 CHR ''a'')
   \<and> 25000 < length (''# Reactions (1 results)\<newline>\<newline>- +1 (1): '' @ replicate 25000 CHR ''a'')"
  by (simp add: formatSpace_def formatSpaceLines_def long_name_space_def joinLines_def
        spaceTypeLabel_def space_description_def
        formatReactionsList_def groupStep_def Map_has_def Map_get_def Let_def
        sample_reaction_def sample_user_def reactionEmoji_def reactionUser_def
        groupLine_def reactionsFooter_def nat_to_string.simps digit_def)

section \<open>Verification: credential resolution\<close>

lemma authRequiredMessage_names:
  "sublist ''GOOGLE_APPLICATION_CREDENTIALS'' authRequiredMessage"
  "sublist ''GOOGLE_SERVICE_ACCOUNT_JSON'' authRequiredMessage"
  "sublist ''GOOGLE_OAUTH_TOKEN'' authRequiredMessage"
proof -
  have "authRequiredMessage =
          ''Authentication required. Set one of:\<newline>  - '' @ ''GOOGLE_APPLICATION_CREDENTIALS'' @
          '': Path to service account JSON file\<newline>  - GOOGLE_SERVICE_ACCOUNT_JSON: Service account JSON as a string\<newline>  - GOOGLE_OAUTH_TOKEN: OAuth2 access token''"
    by (simp add: authRequiredMessage_def)
  then show "sublist ''GOOGLE_APPLICATION_CREDENTIALS'' authRequiredMessage"
    by (metis sublist_appendI)
  have "authRequiredMessage =
          ''Authentication required. Set one of:\<newline>  - GOOGLE_APPLICATION_CREDENTIALS: Path to service account JSON file\<newline>  - '' @
          ''GOOGLE_SERVICE_ACCOUNT_JSON'' @
          '': Service account JSON as a string\<newline>  - GOOGLE_OAUTH_TOKEN: OAuth2 access token''"
    by (simp add: authRequiredMessage_def)
  then show "sublist ''GOOGLE_SERVICE_ACCOUNT_JSON'' authRequiredMessage"
    by (metis sublist_appendI)
  have "authRequiredMessage =
          ''Authentication required. Set one of:\<newline>  - GOOGLE_APPLICATION_CREDENTIALS: Path to service account JSON file\<newline>  - GOOGLE_SERVICE_ACCOUNT_JSON: Service account JSON as a string\<newline>  - '' @
          ''GOOGLE_OAUTH_TOKEN'' @ '': OAuth2 access token''"
    by (simp add: authRequiredMessage_def)
  then show "sublist ''GOOGLE_OAUTH_TOKEN'' authRequiredMessage"
    by (metis sublist_appendI)
qed

lemma messages_distinct: "invalidJsonMessage \<noteq> authRequiredMessage"
  by (simp add: invalidJsonMessage_def authRequiredMessage_def)

text \<open>
  Claim C5, as amended. A present (non-empty) inline payload is parsed whether or not
  the path is set: when it parses, the service-account client gets it as explicit
  credentials; when it does not parse, initialisation fails with the invalid-JSON error.
  With no inline payload and a path, the service-account client is built without
  explicit credentials. With neither and a bearer token, the OAuth client is built
  with that token. With none of the three, initialisation fails with a message that
  names the three variables and differs from the invalid-JSON message.
\<close>

theorem credential_resolution:
  "(str_truthy (GOOGLE_SERVICE_ACCOUNT_JSON pf)
      \<and> JSON_parse pf (the (GOOGLE_SERVICE_ACCOUNT_JSON pf)) = Some credentials \<longrightarrow>
     initializeApiClient pf w =
       Inr (w\<lparr>authClient := Some (GoogleAuth CHAT_SCOPES (Some credentials)),
               apiClient := True\<rparr>))
   \<and> (str_truthy (GOOGLE_SERVICE_ACCOUNT_JSON pf)
        \<and> JSON_parse pf (the (GOOGLE_SERVICE_ACCOUNT_JSON pf)) = None \<longrightarrow>
       initializeApiClient pf w = Inl (Error invalidJsonMessage))
   \<and> (\<not> str_truthy (GOOGLE_SERVICE_ACCOUNT_JSON pf)
        \<and> str_truthy (GOOGLE_APPLICATION_CREDENTIALS pf) \<longrightarrow>
       initializeApiClient pf w =
         Inr (w\<lparr>authClient := Some (GoogleAuth CHAT_SCOPES None), apiClient := True\<rparr>))
   \<and> (\<not> str_truthy (GOOGLE_SERVICE_ACCOUNT_JSON pf)
        \<and> \<not> str_truthy (GOOGLE_APPLICATION_CREDENTIALS pf)
        \<and> str_truthy (GOOGLE_OAUTH_TOKEN pf) \<longrightarrow>
       initializeApiClient pf w =
         Inr (w\<lparr>authClient := Some (OAuth2Client (GOOGLE_OAUTH_TOKEN pf)),
                 apiClient := True\<rparr>))
   \<and> (\<not> str_truthy (GOOGLE_SERVICE_ACCOUNT_JSON pf)
        \<and> \<not> str_truthy (GOOGLE_APPLICATION_CREDENTIALS pf)
        \<and> \<not> str_truthy (GOOGLE_OAUTH_TOKEN pf) \<longrightarrow>
       initializeApiClient pf w = Inl (Error authRequiredMessage))
   \<and> sublist ''GOOGLE_APPLICATION_CREDENTIALS'' authRequiredMessage
   \<and> sublist ''GOOGLE_SERVICE_ACCOUNT_JSON'' authRequiredMessage
   \<and> sublist ''GOOGLE_OAUTH_TOKEN'' authRequiredMessage
   \<and> invalidJsonMessage \<noteq> authRequiredMessage"
  by (simp add: initializeApiClient_def Let_def authRequiredMessage_names messages_distinct)

theorem credential_resolution_witness:
  "initializeApiClient
     (sample_platform\<lparr>GOOGLE_APPLICATION_CREDENTIALS := Some ''/etc/key.json'',
                      GOOGLE_SERVICE_ACCOUNT_JSON := Some ''{}'',
                      GOOGLE_OAUTH_TOKEN := Some ''ya29.abc''\<rparr>) initial_world =
     Inr \<lparr>apiClient = True, authClient = Some (GoogleAuth CHAT_SCOPES (Some (JObj []))),
          sent = []\<rparr>
   \<and> initializeApiClient
       (sample_platform\<lparr>GOOGLE_SERVICE_ACCOUNT_JSON := Some ''{oops''\<rparr>) initial_world =
     Inl (Error invalidJsonMessage)
   \<and> initializeApiClient
       (sample_platform\<lparr>GOOGLE_APPLICATION_CREDENTIALS := Some ''/etc/key.json'',
                        GOOGLE_OAUTH_TOKEN := Some ''ya29.abc''\<rparr>) initial_world =
     Inr \<lparr>apiClient = True, authClient = Some (GoogleAuth CHAT_SCOPES None), sent = []\<rparr>
   \<and> initializeApiClient
       (sample_platform\<lparr>GOOGLE_OAUTH_TOKEN := Some ''ya29.abc''\<rparr>) initial_world =
     Inr \<lparr>apiClient = True, authClient = Some (OAuth2Client (Some ''ya29.abc'')), sent = []\<rparr>
   \<and> initializeApiClient sample_platform initial_world = Inl (Error authRequiredMessage)"
  using credential_resolution
          [of "sample_platform\<lparr>GOOGLE_APPLICATION_CREDENTIALS := Some ''/etc/key.json'',
                               GOOGLE_SERVICE_ACCOUNT_JSON := Some ''{}'',
                               GOOGLE_OAUTH_TOKEN := Some ''ya29.abc''\<rparr>"
              "JObj []" initial_world]
        credential_resolution
          [of "sample_platform\<lparr>GOOGLE_SERVICE_ACCOUNT_JSON := Some ''{oops''\<rparr>"
              "JObj []" initial_world]
        credential_resolution
          [of "sample_platform\<lparr>GOOGLE_APPLICATION_CREDENTIALS := Some ''/etc/key.json'',
                               GOOGLE_OAUTH_TOKEN := Some ''ya29.abc''\<rparr>"
              "JObj []" initial_world]
        credential_resolution
          [of "sample_platform\<lparr>GOOGLE_OAUTH_TOKEN := Some ''ya29.abc''\<rparr>"
              "JObj []" initial_world]
        credential_resolution [of sample_platform "JObj []" initial_world]
  by (simp add: sample_platform_def initial_world_def)

text \<open>
  Claim C5 as stated fails when the path and the inline payload are both set: the
  priority order of the specification selects the path, the code builds the client from
  the inline payload, and fails when that payload is not JSON although the path is set.
\<close>

theorem credential_priority_counterexample:
  "spec_strategy
     (sample_platform\<lparr>GOOGLE_APPLICATION_CREDENTIALS := Some ''/etc/key.json'',
                      GOOGLE_SERVICE_ACCOUNT_JSON := Some ''{}''\<rparr>) = Some ServiceAccountPath
   \<and> initializeApiClient
       (sample_platform\<lparr>GOOGLE_APPLICATION_CREDENTIALS := Some ''/etc/key.json'',
                        GOOGLE_SERVICE_ACCOUNT_JSON := Some ''{}''\<rparr>) initial_world =
     Inr \<lparr>apiClient = True, authClient = Some (GoogleAuth CHAT_SCOPES (Some (JObj []))),
          sent = []\<rparr>
   \<and> strategy_of (GoogleAuth CHAT_SCOPES (Some (JObj []))) = ServiceAccountInlineJSON
   \<and> spec_strategy
       (sample_platform\<lparr>GOOGLE_APPLICATION_CREDENTIALS := Some ''/etc/key.json'',
                        GOOGLE_SERVICE_ACCOUNT_JSON := Some ''{oops''\<rparr>) =
     Some ServiceAccountPath
   \<and> initializeApiClient
       (sample_platform\<lparr>GOOGLE_APPLICATION_CREDENTIALS := Some ''/etc/key.json'',
                        GOOGLE_SERVICE_ACCOUNT_JSON := Some ''{oops''\<rparr>) initial_world =
     Inl (Error invalidJsonMessage)"
  by (simp add: spec_strategy_def initializeApiClient_def sample_platform_def
        initial_world_def Let_def)

section \<open>Verification: the pagination footer\<close>



















lemma unreachable_request:
  "makeApiRequest token_platform unreachable_service initial_world req =
     (Inl (AxiosError None (Some ''ECONNREFUSED'') ''connect ECONNREFUSED 142.250.1.1:443''),
      \<lparr>apiClient = True, authClient = Some (OAuth2Client (Some ''ya29.abc'')),
       sent = [(''ya29.abc'', req)]\<rparr>)"
  by (simp add: makeApiRequest_def initializeApiClient_def getAccessToken_def
        token_platform_def sample_platform_def initial_world_def unreachable_service_def
        Let_def)






section \<open>Verification: descriptions in the list and in the detail view\<close>

lemma line_in_js_join: "l \<in> set ls \<Longrightarrow> sublist l (js_join sep ls)"
proof (induction sep ls rule: js_join.induct)
  case (1 sep)
  then show ?case by simp
next
  case (2 sep x)
  then show ?case by simp
next
  case (3 sep x m ls)
  show ?case
  proof (cases "l = x")
    case True
    then show ?thesis by simp
  next
    case False
    with 3 have "sublist l (js_join sep (m # ls))" by simp
    then obtain ps ss where "js_join sep (m # ls) = ps @ l @ ss"
      by (auto simp: sublist_def)
    then have "js_join sep (x # m # ls) = (x @ sep @ ps) @ l @ ss" by simp
    then show ?thesis unfolding sublist_def by blast
  qed
qed

lemma line_in_text: "l \<in> set ls \<Longrightarrow> sublist l (joinLines ls)"
  by (simp add: joinLines_def line_in_js_join)

lemma block_in_list:
  "space \<in> set spaces \<Longrightarrow> l \<in> set (spaceListBlock space) \<Longrightarrow>
   l \<in> set (spacesListLines spaces hasMore tok)"
  by (auto simp: spacesListLines_def)

text \<open>
  Claim C7, as amended. For a space with description \<open>d\<close>: the block the list view
  emits for it shows the first 100 characters of \<open>d\<close> followed by \<open>...\<close> when \<open>d\<close>
  has more than 100 characters, and \<open>d\<close> in full when it is non-empty and has at most
  100 characters; every line of that block is in the returned list text whenever the
  assembled text has at most 25,000 characters; the detail view shows a non-empty
  \<open>d\<close> in full.
\<close>

theorem description_rendering:
  "space_description space = Some d \<longrightarrow>
     (100 < length d \<longrightarrow>
        spaceListBlock space =
          [''## '' @ str_or (space_displayName space) ''Unnamed Space'',
           ''- **ID**: `'' @ space_name space @ ''`'',
           ''- **Type**: '' @ spaceTypeLabel space,
           ''- **Description**: '' @ take 100 d @ ''...'',
           ''''])
   \<and> (d \<noteq> [] \<and> length d \<le> 100 \<longrightarrow>
        spaceListBlock space =
          [''## '' @ str_or (space_displayName space) ''Unnamed Space'',
           ''- **ID**: `'' @ space_name space @ ''`'',
           ''- **Type**: '' @ spaceTypeLabel space,
           ''- **Description**: '' @ d,
           ''''])
   \<and> (space \<in> set spaces
        \<and> length (joinLines (spacesListLines spaces hasMore tok)) \<le> 25000 \<longrightarrow>
        (\<forall>l \<in> set (spaceListBlock space).
           sublist l (formatSpacesList pf spaces MARKDOWN hasMore tok)))
   \<and> (d \<noteq> [] \<longrightarrow>
        sublist (''- **Description**: '' @ d) (formatSpace pf space MARKDOWN))"
proof (intro impI conjI)
  assume d: "space_description space = Some d" and "100 < length d"
  then show "spaceListBlock space =
          [''## '' @ str_or (space_displayName space) ''Unnamed Space'',
           ''- **ID**: `'' @ space_name space @ ''`'',
           ''- **Type**: '' @ spaceTypeLabel space,
           ''- **Description**: '' @ take 100 d @ ''...'',
           '''']"
    by (auto simp: spaceListBlock_def preview100_def)
next
  assume d: "space_description space = Some d" and "d \<noteq> [] \<and> length d \<le> 100"
  then show "spaceListBlock space =
          [''## '' @ str_or (space_displayName space) ''Unnamed Space'',
           ''- **ID**: `'' @ space_name space @ ''`'',
           ''- **Type**: '' @ spaceTypeLabel space,
           ''- **Description**: '' @ d,
           '''']"
    by (simp add: spaceListBlock_def preview100_def)
next
  assume "space \<in> set spaces
        \<and> length (joinLines (spacesListLines spaces hasMore tok)) \<le> 25000"
  then have mem: "space \<in> set spaces"
    and out: "formatSpacesList pf spaces MARKDOWN hasMore tok =
              joinLines (spacesListLines spaces hasMore tok)"
    by (auto simp: formatSpacesList_def truncateResponse_cases)
  show "\<forall>l \<in> set (spaceListBlock space).
           sublist l (formatSpacesList pf spaces MARKDOWN hasMore tok)"
    unfolding out using mem by (blast intro: line_in_text block_in_list)
next
  assume d: "space_description space = Some d" and "d \<noteq> []"
  then have "''- **Description**: '' @ d \<in> set (formatSpaceLines pf space)"
    by (simp add: formatSpaceLines_def)
  then show "sublist (''- **Description**: '' @ d) (formatSpace pf space MARKDOWN)"
    by (simp add: formatSpace_def line_in_text)
qed

theorem description_rendering_witness:
  "space_description (described_space ''Two'' (replicate 150 CHR ''Z'')) =
     Some (replicate 150 CHR ''Z'')
   \<and> (100::nat) < length (replicate 150 CHR ''Z'')
   \<and> described_space ''Two'' (replicate 150 CHR ''Z'') \<in>
       set [described_space ''One'' ''first'', described_space ''Two'' (replicate 150 CHR ''Z''),
            described_space ''Three'' ''third'']
   \<and> length (joinLines (spacesListLines
         [described_space ''One'' ''first'', described_space ''Two'' (replicate 150 CHR ''Z''),
          described_space ''Three'' ''third''] False None)) \<le> 25000
   \<and> sublist (''- **Description**: '' @ replicate 100 CHR ''Z'' @ ''...'')
        (formatSpacesList sample_platform
           [described_space ''One'' ''first'', described_space ''Two'' (replicate 150 CHR ''Z''),
            described_space ''Three'' ''third''] MARKDOWN False None)
   \<and> sublist (''- **Description**: '' @ replicate 150 CHR ''Z'')
        (formatSpace sample_platform (described_space ''Two'' (replicate 150 CHR ''Z''))
           MARKDOWN)
   \<and> space_description (described_space ''One'' ''first'') = Some ''first''
   \<and> ''first'' \<noteq> [] \<and> length ''first'' \<le> 100
   \<and> sublist ''- **Description**: first''
        (formatSpacesList sample_platform
           [described_space ''One'' ''first'', described_space ''Two'' (replicate 150 CHR ''Z''),
            described_space ''Three'' ''third''] MARKDOWN False None)
   \<and> sublist ''- **Description**: first''
        (formatSpace sample_platform (described_space ''One'' ''first'') MARKDOWN)"
proof -
  let ?two = "described_space ''Two'' (replicate 150 CHR ''Z'')"
  let ?one = "described_space ''One'' ''first''"
  let ?spaces = "[?one, ?two, described_space ''Three'' ''third'']"
  note two = description_rendering
    [where space = ?two and d = "replicate 150 CHR ''Z''" and spaces = ?spaces
       and hasMore = False and tok = None and pf = sample_platform]
  note one = description_rendering
    [where space = ?one and d = "''first''" and spaces = ?spaces
       and hasMore = False and tok = None and pf = sample_platform]
  have d2: "space_description ?two = Some (replicate 150 CHR ''Z'')"
    and d1: "space_description ?one = Some ''first''"
    by (simp_all add: described_space_def space_description_def)
  have len: "length (joinLines (spacesListLines ?spaces False None)) \<le> 25000"
    by (simp add: joinLines_def spacesListLines_def spaceListBlock_def paginationFooter_def
          described_space_def spaceTypeLabel_def space_description_def preview100_def
          nat_to_string.simps digit_def)
  have line2: "''- **Description**: '' @ replicate 100 CHR ''Z'' @ ''...'' \<in>
               set (spaceListBlock ?two)"
    using two d2 by simp
  have line1: "''- **Description**: first'' \<in> set (spaceListBlock ?one)"
    using one d1 by simp
  have mem2: "?two \<in> set ?spaces" and mem1: "?one \<in> set ?spaces"
    by simp_all
  have "\<forall>l \<in> set (spaceListBlock ?two).
          sublist l (formatSpacesList sample_platform ?spaces MARKDOWN False None)"
    using two d2 mem2 len by blast
  with line2 have in2: "sublist (''- **Description**: '' @ replicate 100 CHR ''Z'' @ ''...'')
               (formatSpacesList sample_platform ?spaces MARKDOWN False None)"
    by blast
  have "\<forall>l \<in> set (spaceListBlock ?one).
          sublist l (formatSpacesList sample_platform ?spaces MARKDOWN False None)"
    using one d1 mem1 len by blast
  with line1 have in1: "sublist ''- **Description**: first''
               (formatSpacesList sample_platform ?spaces MARKDOWN False None)"
    by blast
  have full2: "sublist (''- **Description**: '' @ replicate 150 CHR ''Z'')
                 (formatSpace sample_platform ?two MARKDOWN)"
    using two d2 by simp
  have full1: "sublist ''- **Description**: first'' (formatSpace sample_platform ?one MARKDOWN)"
    using one d1 by simp
  show ?thesis
    using d2 d1 len in2 in1 full2 full1 by simp
qed

lemma cut_list_text:
  "formatSpacesList pf [long_name_space] MARKDOWN False None =
     ''# Spaces (1 results)\<newline>\<newline>## '' @ replicate 24875 CHR ''a'' @ truncationNotice"
  by (simp add: long_name_space_def formatSpacesList_def truncateResponse_cases joinLines_def
        spacesListLines_def spaceListBlock_def paginationFooter_def spaceTypeLabel_def
        space_description_def preview100_def nat_to_string.simps digit_def)

text \<open>
  Claim C7 as stated fails where the global cut removes the block: in a list whose
  text passes 25,000 characters before the description, the returned text does not
  show the clipped description.
\<close>

theorem cut_description_counterexample:
  "space_description long_name_space = Some (replicate 150 CHR ''Z'')
   \<and> formatSpacesList sample_platform [long_name_space] MARKDOWN False None =
       ''# Spaces (1 results)\<newline>\<newline>## '' @ replicate 24875 CHR ''a'' @ truncationNotice
   \<and> \<not> sublist (''- **Description**: '' @ replicate 100 CHR ''Z'' @ ''...'')
          (formatSpacesList sample_platform [long_name_space] MARKDOWN False None)"
proof -
  have "\<not> sublist (''- **Description**: '' @ replicate 100 CHR ''Z'' @ ''...'')
          (''# Spaces (1 results)\<newline>\<newline>## '' @ replicate 24875 CHR ''a'' @ truncationNotice)"
  proof
    assume "sublist (''- **Description**: '' @ replicate 100 CHR ''Z'' @ ''...'')
          (''# Spaces (1 results)\<newline>\<newline>## '' @ replicate 24875 CHR ''a'' @ truncationNotice)"
    then have "set (''- **Description**: '' @ replicate 100 CHR ''Z'' @ ''...'') \<subseteq>
          set (''# Spaces (1 results)\<newline>\<newline>## '' @ replicate 24875 CHR ''a'' @ truncationNotice)"
      by (rule set_mono_sublist)
    then show False by (simp add: truncationNotice_def)
  qed
  moreover have "space_description long_name_space = Some (replicate 150 CHR ''Z'')"
    by (simp add: long_name_space_def space_description_def)
  ultimately show ?thesis
    by (simp add: cut_list_text)
qed

section \<open>Verification: the tool boundary\<close>

lemma tool_try_failure:
  "fst outcome = Inl e \<Longrightarrow> fst (tool_try outcome onSuccess) = errorResult e"
  by (cases outcome) (simp add: tool_try_def)

lemma tool_try_error_shape:
  assumes "fst (tool_try outcome onSuccess) = Inr res" and "isError res"
    and "\<And>r x. onSuccess r = Inr x \<Longrightarrow> \<not> isError x"
  shows "structuredContent res = None \<and> length (content res) = 1"
  using assms
  by (cases outcome) (auto simp: tool_try_def errorResult_def split: sum.splits)

lemma first_throw_Inl: "first_throw rs = Inl e \<Longrightarrow> Inl e \<in> set rs"
  by (induction rs rule: first_throw.induct) (auto split: sum.splits)

lemma js_to_string_throws: "js_to_string v = Inl t \<Longrightarrow> t = cannotConvert"
proof (induction v rule: js_to_string.induct)
  case (6 vs)
  let ?part = "\<lambda>v. if v = JUndefined \<or> v = JNull then Inr [] else js_to_string v"
  from 6(2) have "first_throw (map ?part vs) = Inl t"
    by (simp split: sum.splits)
  then have "Inl t \<in> set (map ?part vs)" by (rule first_throw_Inl)
  then obtain v where v: "v \<in> set vs" "?part v = Inl t" by auto
  then have "\<not> (v = JUndefined \<or> v = JNull)" "js_to_string v = Inl t"
    by (auto split: if_splits)
  with v(1) show ?case by (rule 6(1))
qed (auto split: if_splits)

lemma handleApiError_throws: "handleApiError e = Inl t \<Longrightarrow> t = cannotConvert"
  by (cases e rule: handleApiError.cases)
     (auto simp: statusMessage_def js_template_def split: if_splits sum.splits
           dest: js_to_string_throws)

text \<open>
  Claim C8, as the code has it. For each of the tools, when the request of the
  invocation fails with an error \<open>e\<close>, the outcome of the handler is that of its
  \<open>catch\<close> block: when \<open>handleApiError e\<close> returns a text, the handler returns the
  failure result with \<open>isError\<close> set, that text as the only content and no structured
  content; when \<open>handleApiError e\<close> throws, the handler throws. The only thing
  \<open>handleApiError\<close> throws is the \<open>TypeError\<close> of a message that cannot be converted
  to a string. Whatever happens in an invocation, a returned result that has
  \<open>isError\<close> set carries one text and no structured content.
\<close>

theorem tool_failure_outcome:
  "((fst (makeApiRequest pf remote_spaces w
             (list_spaces_request pageSize pageToken filter')) = Inl e
      \<longrightarrow> fst (google_chat_list_spaces pf remote_spaces w
                 pageSize pageToken filter' fmt)
            = errorResult e)
   \<and> (fst (makeApiRequest pf remote_space w
             (get_space_request spaceName)) = Inl e
      \<longrightarrow> fst (google_chat_get_space pf remote_space w
                 spaceName fmt)
            = errorResult e)
   \<and> (fst (makeApiRequest pf remote_space w
             (create_space_request displayName spaceType externalUserAllowed description guidelines)) = Inl e
      \<longrightarrow> fst (google_chat_create_space pf remote_space w
                 displayName spaceType externalUserAllowed description guidelines fmt)
            = errorResult e)
   \<and> (update_space_mask newName description guidelines \<noteq> []
        \<and> fst (makeApiRequest pf remote_space w
             (update_space_request spaceName newName description guidelines)) = Inl e
      \<longrightarrow> fst (google_chat_update_space pf remote_space w
                 spaceName newName description guidelines fmt)
            = errorResult e)
   \<and> (fst (makeApiRequest pf remote_unit w
             (delete_space_request spaceName)) = Inl e
      \<longrightarrow> fst (google_chat_delete_space pf remote_unit w
                 spaceName)
            = errorResult e)
   \<and> (fst (makeApiRequest pf remote_search w
             (search_spaces_request query pageSize pageToken)) = Inl e
      \<longrightarrow> fst (google_chat_search_spaces pf remote_search w
                 query pageSize pageToken fmt)
            = errorResult e)
   \<and> (fst (makeApiRequest pf remote_space w
             (find_direct_message_request userId)) = Inl e
      \<longrightarrow> fst (google_chat_find_direct_message pf remote_space w
                 userId fmt)
            = errorResult e)
   \<and> (fst (makeApiRequest pf remote_messages w
             (list_messages_request spaceName pageSize pageToken filter' orderBy showDeleted)) = Inl e
      \<longrightarrow> fst (google_chat_list_messages pf remote_messages w
                 spaceName pageSize pageToken filter' orderBy showDeleted fmt)
            = errorResult e)
   \<and> (fst (makeApiRequest pf remote_message w
             (get_message_request messageName)) = Inl e
      \<longrightarrow> fst (google_chat_get_message pf remote_message w
                 messageName fmt)
            = errorResult e)
   \<and> (fst (makeApiRequest pf remote_message w
             (create_message_request spaceName text threadKey threadName messageReplyOption messageId)) = Inl e
      \<longrightarrow> fst (google_chat_create_message pf remote_message w
                 spaceName text threadKey threadName messageReplyOption messageId fmt)
            = errorResult e)
   \<and> (fst (makeApiRequest pf remote_message w
             (update_message_request messageName text)) = Inl e
      \<longrightarrow> fst (google_chat_update_message pf remote_message w
                 messageName text fmt)
            = errorResult e)
   \<and> (fst (makeApiRequest pf remote_unit w
             (delete_message_request messageName force)) = Inl e
      \<longrightarrow> fst (google_chat_delete_message pf remote_unit w
                 messageName force)
            = errorResult e)
   \<and> (fst (makeApiRequest pf remote_members w
             (list_members_request spaceName pageSize pageToken filter' showGroups showInvited)) = Inl e
      \<longrightarrow> fst (google_chat_list_members pf remote_members w
                 spaceName pageSize pageToken filter' showGroups showInvited fmt)
            = errorResult e)
   \<and> (fst (makeApiRequest pf remote_member w
             (get_member_request memberName)) = Inl e
      \<longrightarrow> fst (google_chat_get_member pf remote_member w
                 memberName fmt)
            = errorResult e)
   \<and> (fst (makeApiRequest pf remote_member w
             (create_member_request spaceName userId role)) = Inl e
      \<longrightarrow> fst (google_chat_create_member pf remote_member w
                 spaceName userId role fmt)
            = errorResult e)
   \<and> (fst (makeApiRequest pf remote_unit w
             (delete_member_request memberName)) = Inl e
      \<longrightarrow> fst (google_chat_delete_member pf remote_unit w
                 memberName)
            = errorResult e)
   \<and> (fst (makeApiRequest pf remote_reactions w
             (list_reactions_request messageName pageSize pageToken filter')) = Inl e
      \<longrightarrow> fst (google_chat_list_reactions pf remote_reactions w
                 messageName pageSize pageToken filter' fmt)
            = errorResult e)
   \<and> (fst (makeApiRequest pf remote_reaction w
             (create_reaction_request messageName emoji)) = Inl e
      \<longrightarrow> fst (google_chat_create_reaction pf remote_reaction w
                 messageName emoji fmt)
            = errorResult e)
   \<and> (fst (makeApiRequest pf remote_unit w
             (delete_reaction_request reactionName)) = Inl e
      \<longrightarrow> fst (google_chat_delete_reaction pf remote_unit w
                 reactionName)
            = errorResult e)
   \<and> (fst (makeApiRequest pf remote_attachment w
             (get_attachment_request attachmentName)) = Inl e
      \<longrightarrow> fst (google_chat_get_attachment pf remote_attachment w
                 attachmentName fmt)
            = errorResult e)
   \<and> (fst (makeApiRequest pf remote_upload w
             (upload_attachment_request pf spaceName filename contentType contentBase64)) = Inl e
      \<longrightarrow> fst (google_chat_upload_attachment pf remote_upload w
                 spaceName filename contentType contentBase64 fmt)
            = errorResult e)
   \<and> errorResult e =
       (case handleApiError e of
          Inl thrown \<Rightarrow> Inl thrown
        | Inr text \<Rightarrow> Inr \<lparr>isError = True, content = [text], structuredContent = None\<rparr>)
   \<and> (handleApiError e = Inl thrown \<longrightarrow>
        thrown = Error ''Cannot convert object to primitive value''))
   \<and> (\<forall>outcome \<in> set
     [fst (google_chat_list_spaces pf remote_spaces w
             pageSize pageToken filter' fmt),
      fst (google_chat_get_space pf remote_space w
             spaceName fmt),
      fst (google_chat_create_space pf remote_space w
             displayName spaceType externalUserAllowed description guidelines fmt),
      fst (google_chat_update_space pf remote_space w
             spaceName newName description guidelines fmt),
      fst (google_chat_delete_space pf remote_unit w
             spaceName),
      fst (google_chat_search_spaces pf remote_search w
             query pageSize pageToken fmt),
      fst (google_chat_find_direct_message pf remote_space w
             userId fmt),
      fst (google_chat_list_messages pf remote_messages w
             spaceName pageSize pageToken filter' orderBy showDeleted fmt),
      fst (google_chat_get_message pf remote_message w
             messageName fmt),
      fst (google_chat_create_message pf remote_message w
             spaceName text threadKey threadName messageReplyOption messageId fmt),
      fst (google_chat_update_message pf remote_message w
             messageName text fmt),
      fst (google_chat_delete_message pf remote_unit w
             messageName force),
      fst (google_chat_list_members pf remote_members w
             spaceName pageSize pageToken filter' showGroups showInvited fmt),
      fst (google_chat_get_member pf remote_member w
             memberName fmt),
      fst (google_chat_create_member pf remote_member w
             spaceName userId role fmt),
      fst (google_chat_delete_member pf remote_unit w
             memberName),
      fst (google_chat_list_reactions pf remote_reactions w
             messageName pageSize pageToken filter' fmt),
      fst (google_chat_create_reaction pf remote_reaction w
             messageName emoji fmt),
      fst (google_chat_delete_reaction pf remote_unit w
             reactionName),
      fst (google_chat_get_attachment pf remote_attachment w
             attachmentName fmt),
      fst (google_chat_upload_attachment pf remote_upload w
             spaceName filename contentType contentBase64 fmt)].
     \<forall>r. outcome = Inr r \<and> isError r \<longrightarrow> structuredContent r = None \<and> length (content r) = 1)"
  (is "?classified \<and> ?shape")
proof
  show ?classified
    unfolding
      google_chat_list_spaces_def google_chat_get_space_def google_chat_create_space_def
      google_chat_update_space_def google_chat_delete_space_def
      google_chat_search_spaces_def google_chat_find_direct_message_def
      google_chat_list_messages_def google_chat_get_message_def
      google_chat_create_message_def google_chat_update_message_def
      google_chat_delete_message_def google_chat_list_members_def google_chat_get_member_def
      google_chat_create_member_def google_chat_delete_member_def
      google_chat_list_reactions_def google_chat_create_reaction_def
      google_chat_delete_reaction_def google_chat_get_attachment_def
      google_chat_upload_attachment_def
    using handleApiError_throws [of e thrown]
    by (simp add: tool_try_failure errorResult_def cannotConvert_def)
  show ?shape
    unfolding
      google_chat_list_spaces_def google_chat_get_space_def google_chat_create_space_def
      google_chat_update_space_def google_chat_delete_space_def
      google_chat_search_spaces_def google_chat_find_direct_message_def
      google_chat_list_messages_def google_chat_get_message_def
      google_chat_create_message_def google_chat_update_message_def
      google_chat_delete_message_def google_chat_list_members_def google_chat_get_member_def
      google_chat_create_member_def google_chat_delete_member_def
      google_chat_list_reactions_def google_chat_create_reaction_def
      google_chat_delete_reaction_def google_chat_get_attachment_def
      google_chat_upload_attachment_def
    by (auto simp: okResult_def Let_def split: sum.splits
          dest!: tool_try_error_shape)
qed

lemma unprintable_request:
  "makeApiRequest token_platform unprintable_service initial_world req =
     (Inl (AxiosError (Some \<lparr>status = Num ''404'', data = unprintable_body\<rparr>)
             (Some ''ERR_BAD_REQUEST'') ''Request failed with status code 404''),
      \<lparr>apiClient = True, authClient = Some (OAuth2Client (Some ''ya29.abc'')),
       sent = [(''ya29.abc'', req)]\<rparr>)"
  by (simp add: makeApiRequest_def initializeApiClient_def getAccessToken_def
        token_platform_def sample_platform_def initial_world_def unprintable_service_def
        Let_def)

theorem tool_failure_outcome_witness:
  "set (map (\<lambda>req. fst (makeApiRequest token_platform
                          (unprintable_service :: api_request \<Rightarrow> js_error + unit)
                          initial_world req))
         [list_spaces_request (Num ''25'') None None,
          get_space_request ''spaces/AAA'',
          create_space_request ''Team'' SPACE False None None,
          update_space_request ''spaces/AAA'' (Some ''Team'') None None,
          delete_space_request ''spaces/AAA'',
          search_spaces_request ''team'' (Num ''25'') None,
          find_direct_message_request ''users/1'',
          list_messages_request ''spaces/AAA'' (Num ''25'') None None None False,
          get_message_request ''spaces/AAA/messages/B'',
          create_message_request ''spaces/AAA'' ''hi'' None None None None,
          update_message_request ''spaces/AAA/messages/B'' ''hi'',
          delete_message_request ''spaces/AAA/messages/B'' False,
          list_members_request ''spaces/AAA'' (Num ''25'') None None False False,
          get_member_request ''spaces/AAA/members/1'',
          create_member_request ''spaces/AAA'' ''users/1'' ROLE_MEMBER,
          delete_member_request ''spaces/AAA/members/1'',
          list_reactions_request ''spaces/AAA/messages/B'' (Num ''25'') None None,
          create_reaction_request ''spaces/AAA/messages/B'' ''+1'',
          delete_reaction_request ''spaces/AAA/messages/B/reactions/r'',
          get_attachment_request ''spaces/AAA/messages/B/attachments/C'',
          upload_attachment_request token_platform ''spaces/AAA'' ''a.png'' ''image/png'' ''aGk='']) =
     {Inl (AxiosError (Some \<lparr>status = Num ''404'', data = unprintable_body\<rparr>)
             (Some ''ERR_BAD_REQUEST'') ''Request failed with status code 404'')}
   \<and> update_space_mask (Some ''Team'') None None \<noteq> []
   \<and> handleApiError
        (AxiosError (Some \<lparr>status = Num ''404'', data = unprintable_body\<rparr>)
           (Some ''ERR_BAD_REQUEST'') ''Request failed with status code 404'') =
      Inl (Error ''Cannot convert object to primitive value'')
   \<and> set
        [fst (google_chat_list_spaces token_platform unprintable_service initial_world
                (Num ''25'') None None MARKDOWN),
         fst (google_chat_get_space token_platform unprintable_service initial_world
                ''spaces/AAA'' MARKDOWN),
         fst (google_chat_create_space token_platform unprintable_service initial_world
                ''Team'' SPACE False None None MARKDOWN),
         fst (google_chat_update_space token_platform unprintable_service initial_world
                ''spaces/AAA'' (Some ''Team'') None None MARKDOWN),
         fst (google_chat_delete_space token_platform unprintable_service initial_world
                ''spaces/AAA''),
         fst (google_chat_search_spaces token_platform unprintable_service initial_world
                ''team'' (Num ''25'') None MARKDOWN),
         fst (google_chat_find_direct_message token_platform unprintable_service initial_world
                ''users/1'' MARKDOWN),
         fst (google_chat_list_messages token_platform unprintable_service initial_world
                ''spaces/AAA'' (Num ''25'') None None None False MARKDOWN),
         fst (google_chat_get_message token_platform unprintable_service initial_world
                ''spaces/AAA/messages/B'' MARKDOWN),
         fst (google_chat_create_message token_platform unprintable_service initial_world
                ''spaces/AAA'' ''hi'' None None None None MARKDOWN),
         fst (google_chat_update_message token_platform unprintable_service initial_world
                ''spaces/AAA/messages/B'' ''hi'' MARKDOWN),
         fst (google_chat_delete_message token_platform unprintable_service initial_world
                ''spaces/AAA/messages/B'' False),
         fst (google_chat_list_members token_platform unprintable_service initial_world
                ''spaces/AAA'' (Num ''25'') None None False False MARKDOWN),
         fst (google_chat_get_member token_platform unprintable_service initial_world
                ''spaces/AAA/members/1'' MARKDOWN),
         fst (google_chat_create_member token_platform unprintable_service initial_world
                ''spaces/AAA'' ''users/1'' ROLE_MEMBER MARKDOWN),
         fst (google_chat_delete_member token_platform unprintable_service initial_world
                ''spaces/AAA/members/1''),
         fst (google_chat_list_reactions token_platform unprintable_service initial_world
                ''spaces/AAA/messages/B'' (Num ''25'') None None MARKDOWN),
         fst (google_chat_create_reaction token_platform unprintable_service initial_world
                ''spaces/AAA/messages/B'' ''+1'' MARKDOWN),
         fst (google_chat_delete_reaction token_platform unprintable_service initial_world
                ''spaces/AAA/messages/B/reactions/r''),
         fst (google_chat_get_attachment token_platform unprintable_service initial_world
                ''spaces/AAA/messages/B/attachments/C'' MARKDOWN),
         fst (google_chat_upload_attachment token_platform unprintable_service initial_world
                ''spaces/AAA'' ''a.png'' ''image/png'' ''aGk='' MARKDOWN)] =
     {Inl (Error ''Cannot convert object to primitive value'')}
   \<and> set (map (\<lambda>req. fst (makeApiRequest token_platform
                          (unreachable_service :: api_request \<Rightarrow> js_error + unit)
                          initial_world req))
         [list_spaces_request (Num ''25'') None None,
          get_space_request ''spaces/AAA'',
          create_space_request ''Team'' SPACE False None None,
          update_space_request ''spaces/AAA'' (Some ''Team'') None None,
          delete_space_request ''spaces/AAA'',
          search_spaces_request ''team'' (Num ''25'') None,
          find_direct_message_request ''users/1'',
          list_messages_request ''spaces/AAA'' (Num ''25'') None None None False,
          get_message_request ''spaces/AAA/messages/B'',
          create_message_request ''spaces/AAA'' ''hi'' None None None None,
          update_message_request ''spaces/AAA/messages/B'' ''hi'',
          delete_message_request ''spaces/AAA/messages/B'' False,
          list_members_request ''spaces/AAA'' (Num ''25'') None None False False,
          get_member_request ''spaces/AAA/members/1'',
          create_member_request ''spaces/AAA'' ''users/1'' ROLE_MEMBER,
          delete_member_request ''spaces/AAA/members/1'',
          list_reactions_request ''spaces/AAA/messages/B'' (Num ''25'') None None,
          create_reaction_request ''spaces/AAA/messages/B'' ''+1'',
          delete_reaction_request ''spaces/AAA/messages/B/reactions/r'',
          get_attachment_request ''spaces/AAA/messages/B/attachments/C'',
          upload_attachment_request token_platform ''spaces/AAA'' ''a.png'' ''image/png'' ''aGk='']) =
     {Inl (AxiosError None (Some ''ECONNREFUSED'') ''connect ECONNREFUSED 142.250.1.1:443'')}
   \<and> set
        [fst (google_chat_list_spaces token_platform unreachable_service initial_world
                (Num ''25'') None None MARKDOWN),
         fst (google_chat_get_space token_platform unreachable_service initial_world
                ''spaces/AAA'' MARKDOWN),
         fst (google_chat_create_space token_platform unreachable_service initial_world
                ''Team'' SPACE False None None MARKDOWN),
         fst (google_chat_update_space token_platform unreachable_service initial_world
                ''spaces/AAA'' (Some ''Team'') None None MARKDOWN),
         fst (google_chat_delete_space token_platform unreachable_service initial_world
                ''spaces/AAA''),
         fst (google_chat_search_spaces token_platform unreachable_service initial_world
                ''team'' (Num ''25'') None MARKDOWN),
         fst (google_chat_find_direct_message token_platform unreachable_service initial_world
                ''users/1'' MARKDOWN),
         fst (google_chat_list_messages token_platform unreachable_service initial_world
                ''spaces/AAA'' (Num ''25'') None None None False MARKDOWN),
         fst (google_chat_get_message token_platform unreachable_service initial_world
                ''spaces/AAA/messages/B'' MARKDOWN),
         fst (google_chat_create_message token_platform unreachable_service initial_world
                ''spaces/AAA'' ''hi'' None None None None MARKDOWN),
         fst (google_chat_update_message token_platform unreachable_service initial_world
                ''spaces/AAA/messages/B'' ''hi'' MARKDOWN),
         fst (google_chat_delete_message token_platform unreachable_service initial_world
                ''spaces/AAA/messages/B'' False),
         fst (google_chat_list_members token_platform unreachable_service initial_world
                ''spaces/AAA'' (Num ''25'') None None False False MARKDOWN),
         fst (google_chat_get_member token_platform unreachable_service initial_world
                ''spaces/AAA/members/1'' MARKDOWN),
         fst (google_chat_create_member token_platform unreachable_service initial_world
                ''spaces/AAA'' ''users/1'' ROLE_MEMBER MARKDOWN),
         fst (google_chat_delete_member token_platform unreachable_service initial_world
                ''spaces/AAA/members/1''),
         fst (google_chat_list_reactions token_platform unreachable_service initial_world
                ''spaces/AAA/messages/B'' (Num ''25'') None None MARKDOWN),
         fst (google_chat_create_reaction token_platform unreachable_service initial_world
                ''spaces/AAA/messages/B'' ''+1'' MARKDOWN),
         fst (google_chat_delete_reaction token_platform unreachable_service initial_world
                ''spaces/AAA/messages/B/reactions/r''),
         fst (google_chat_get_attachment token_platform unreachable_service initial_world
                ''spaces/AAA/messages/B/attachments/C'' MARKDOWN),
         fst (google_chat_upload_attachment token_platform unreachable_service initial_world
                ''spaces/AAA'' ''a.png'' ''image/png'' ''aGk='' MARKDOWN)] =
     {Inr \<lparr>isError = True,
           content = [''Error: Unable to connect to Google Chat API. Check your network connection.''],
           structuredContent = None\<rparr>}"
  using tool_failure_outcome
    [where pf = token_platform and w = initial_world
       and e = "AxiosError (Some \<lparr>status = Num ''404'', data = unprintable_body\<rparr>)
                  (Some ''ERR_BAD_REQUEST'') ''Request failed with status code 404''"
       and thrown = "Error ''Cannot convert object to primitive value''"
       and remote_spaces = unprintable_service and remote_space = unprintable_service
       and remote_unit = unprintable_service and remote_search = unprintable_service
       and remote_messages = unprintable_service and remote_message = unprintable_service
       and remote_members = unprintable_service and remote_member = unprintable_service
       and remote_reactions = unprintable_service and remote_reaction = unprintable_service
       and remote_attachment = unprintable_service and remote_upload = unprintable_service
       and fmt = MARKDOWN and pageSize = "Num ''25''" and pageToken = None and filter' = None
       and orderBy = None and showDeleted = False and showGroups = False
       and showInvited = False and force = False
       and spaceName = "''spaces/AAA''" and displayName = "''Team''" and spaceType = SPACE
       and externalUserAllowed = False and newName = "Some ''Team''"
       and description = None and guidelines = None and query = "''team''"
       and userId = "''users/1''" and messageName = "''spaces/AAA/messages/B''"
       and ?text = "''hi''" and threadKey = None and threadName = None
       and messageReplyOption = None and messageId = None
       and memberName = "''spaces/AAA/members/1''" and role = ROLE_MEMBER
       and emoji = "''+1''" and reactionName = "''spaces/AAA/messages/B/reactions/r''"
       and attachmentName = "''spaces/AAA/messages/B/attachments/C''"
       and filename = "''a.png''" and contentType = "''image/png''"
       and ?contentBase64.0 = "''aGk=''", THEN conjunct1]
    tool_failure_outcome
    [where pf = token_platform and w = initial_world
       and e = "AxiosError None (Some ''ECONNREFUSED'') ''connect ECONNREFUSED 142.250.1.1:443''"
       and thrown = "Error ''Cannot convert object to primitive value''"
       and remote_spaces = unreachable_service and remote_space = unreachable_service
       and remote_unit = unreachable_service and remote_search = unreachable_service
       and remote_messages = unreachable_service and remote_message = unreachable_service
       and remote_members = unreachable_service and remote_member = unreachable_service
       and remote_reactions = unreachable_service and remote_reaction = unreachable_service
       and remote_attachment = unreachable_service and remote_upload = unreachable_service
       and fmt = MARKDOWN and pageSize = "Num ''25''" and pageToken = None and filter' = None
       and orderBy = None and showDeleted = False and showGroups = False
       and showInvited = False and force = False
       and spaceName = "''spaces/AAA''" and displayName = "''Team''" and spaceType = SPACE
       and externalUserAllowed = False and newName = "Some ''Team''"
       and description = None and guidelines = None and query = "''team''"
       and userId = "''users/1''" and messageName = "''spaces/AAA/messages/B''"
       and ?text = "''hi''" and threadKey = None and threadName = None
       and messageReplyOption = None and messageId = None
       and memberName = "''spaces/AAA/members/1''" and role = ROLE_MEMBER
       and emoji = "''+1''" and reactionName = "''spaces/AAA/messages/B/reactions/r''"
       and attachmentName = "''spaces/AAA/messages/B/attachments/C''"
       and filename = "''a.png''" and contentType = "''image/png''"
       and ?contentBase64.0 = "''aGk=''", THEN conjunct1]
  by (simp add: unreachable_request unprintable_request update_space_mask_def
        statusMessage_def upstreamMessage_def js_or_def js_template_def
        unprintable_body_def cannotConvert_def)

lemma update_space_mask_empty:
  "update_space_mask displayName description guidelines = [] \<longleftrightarrow>
     \<not> str_truthy displayName \<and> description = None \<and> guidelines = None"
  by (auto simp: update_space_mask_def)

text \<open>
  Claim C9. When none of \<open>displayName\<close>, \<open>description\<close> and \<open>guidelines\<close> is
  supplied the field mask is empty, and with an empty field mask the update handler
  returns the error result with the message
  \<open>Error: At least one field must be provided to update.\<close> and leaves the module
  state as it was: no request is sent. (With a non-empty mask and a token at hand, the
  handler does send the PATCH request.)
\<close>

theorem update_space_requires_a_field:
  "(displayName = None \<and> description = None \<and> guidelines = None \<longrightarrow>
      update_space_mask displayName description guidelines = [])
   \<and> (update_space_mask displayName description guidelines = [] \<longleftrightarrow>
        \<not> str_truthy displayName \<and> description = None \<and> guidelines = None)
   \<and> (update_space_mask displayName description guidelines = [] \<longrightarrow>
        google_chat_update_space pf remote w spaceName displayName description guidelines
          response_format =
          (Inr \<lparr>isError = True,
                 content = [''Error: At least one field must be provided to update.''],
                 structuredContent = None\<rparr>, w)
        \<and> sent (snd (google_chat_update_space pf remote w spaceName displayName description
                       guidelines response_format)) = sent w)
   \<and> (update_space_mask displayName description guidelines \<noteq> [] \<and> apiClient w
        \<and> getAccessToken pf w = Inr token \<longrightarrow>
        sent (snd (google_chat_update_space pf remote w spaceName displayName description
                     guidelines response_format)) =
          sent w @ [(token, update_space_request spaceName displayName description guidelines)])"
  using update_space_mask_empty [of displayName description guidelines]
  by (auto simp: google_chat_update_space_def update_space_mask_def tool_try_def
        makeApiRequest_def split: sum.splits prod.splits)

theorem update_space_requires_a_field_witness:
  "update_space_mask None None None = []
   \<and> google_chat_update_space token_platform unreachable_service initial_world ''spaces/AAA''
        None None None MARKDOWN =
      (Inr \<lparr>isError = True,
             content = [''Error: At least one field must be provided to update.''],
             structuredContent = None\<rparr>, initial_world)
   \<and> sent (snd (google_chat_update_space token_platform unreachable_service initial_world
                  ''spaces/AAA'' None None None MARKDOWN)) = []
   \<and> update_space_mask (Some ''Team'') None None \<noteq> []
   \<and> apiClient \<lparr>apiClient = True, authClient = Some (OAuth2Client (Some ''ya29.abc'')),
                 sent = []\<rparr>
   \<and> getAccessToken token_platform
        \<lparr>apiClient = True, authClient = Some (OAuth2Client (Some ''ya29.abc'')), sent = []\<rparr> =
      Inr ''ya29.abc''
   \<and> sent (snd (google_chat_update_space token_platform unreachable_service
                  \<lparr>apiClient = True, authClient = Some (OAuth2Client (Some ''ya29.abc'')),
                   sent = []\<rparr>
                  ''spaces/AAA'' (Some ''Team'') None None MARKDOWN)) =
      [(''ya29.abc'',
        \<lparr>endpoint = ''spaces/AAA'', verb = PATCH,
         body = Some (JObj [(''displayName'', JStr ''Team'')]),
         params = Some [(''updateMask'', JStr ''displayName'')]\<rparr>)]"
  using update_space_requires_a_field
          [where displayName = None and description = None and guidelines = None
             and pf = token_platform and remote = unreachable_service and w = initial_world
             and spaceName = "''spaces/AAA''" and response_format = MARKDOWN]
        update_space_requires_a_field
          [where displayName = "Some ''Team''" and description = None and guidelines = None
             and pf = token_platform and remote = unreachable_service
             and w = "\<lparr>apiClient = True, authClient = Some (OAuth2Client (Some ''ya29.abc'')),
                       sent = []\<rparr>"
             and token = "''ya29.abc''"
             and spaceName = "''spaces/AAA''" and response_format = MARKDOWN]
  by (simp add: update_space_mask_def initial_world_def getAccessToken_def
        update_space_request_def update_space_data_def)

end
